theory Spec2Isabelle
  imports Main "HOL-Library.Word"
begin

section \<open>The GeoJSON worker source\<close>

text \<open>
  A shallow embedding of \<^verbatim>\<open>src/source/geojson_worker_source.ts\<close>: the class
  \<^verbatim>\<open>GeoJSONWorkerSource\<close> (tile extraction, the load coordinator, source removal) and
  the function \<^verbatim>\<open>getSuperclusterOptions\<close>.  The fields of the object are a record that
  every method takes and returns; a promise is the settlement recorded for the call that
  created it; every asynchronous method is cut at its suspension points into the pieces the
  event loop runs one at a time.  The collaborators imported from other modules (the
  transport, the JSON parser, the expression compiler, the index builders, the tile encoder)
  are parameters of the model.
\<close>

subsection \<open>JavaScript values\<close>

text \<open>
  The values that flow through the loader.  No arithmetic is done on numbers here, only
  truthiness tests, so a number is an integer or \<open>NaN\<close>.  An object is the list of
  its own properties in enumeration order.
\<close>

datatype jsval =
    JUndefined
  | JNull
  | JBool bool
  | JNum int
  | JNaN
  | JStr string
  | JArr "jsval list"
  | JObj "(string \<times> jsval) list"

text \<open>Truthiness, as \<^verbatim>\<open>!data\<close> and \<^verbatim>\<open>Array.prototype.filter\<close> test it.\<close>

fun truthy :: "jsval \<Rightarrow> bool" where
  "truthy JUndefined = False"
| "truthy JNull = False"
| "truthy (JBool b) = b"
| "truthy (JNum n) = (n \<noteq> 0)"
| "truthy JNaN = False"
| "truthy (JStr s) = (s \<noteq> [])"
| "truthy (JArr xs) = True"
| "truthy (JObj kvs) = True"

text \<open>\<^verbatim>\<open>typeof v === 'object'\<close>: true of objects, arrays and \<^verbatim>\<open>null\<close>.\<close>

fun typeof_object :: "jsval \<Rightarrow> bool" where
  "typeof_object JNull = True"
| "typeof_object (JArr xs) = True"
| "typeof_object (JObj kvs) = True"
| "typeof_object v = False"

text \<open>\<^verbatim>\<open>typeof v === 'string'\<close>.\<close>

fun typeof_string :: "jsval \<Rightarrow> bool" where
  "typeof_string (JStr s) = True"
| "typeof_string v = False"

text \<open>
  Reading a named property: \<^verbatim>\<open>o[k]\<close> is \<^verbatim>\<open>undefined\<close> when the object has no
  such property.  Writing one replaces the value in place or appends the property.
\<close>

fun get_prop :: "(string \<times> jsval) list \<Rightarrow> string \<Rightarrow> jsval" where
  "get_prop [] k = JUndefined"
| "get_prop ((k', v) # kvs) k = (if k' = k then v else get_prop kvs k)"

fun set_prop :: "(string \<times> jsval) list \<Rightarrow> string \<Rightarrow> jsval \<Rightarrow> (string \<times> jsval) list" where
  "set_prop [] k v = [(k, v)]"
| "set_prop ((k', v') # kvs) k v =
     (if k' = k then (k, v) # kvs else (k', v') # set_prop kvs k v)"

text \<open>\<^verbatim>\<open>v[k]\<close> on any value that is not \<^verbatim>\<open>null\<close> or \<^verbatim>\<open>undefined\<close>.\<close>

fun member :: "jsval \<Rightarrow> string \<Rightarrow> jsval" where
  "member (JObj kvs) k = get_prop kvs k"
| "member v k = JUndefined"

text \<open>Errors: \<^verbatim>\<open>new Error(message)\<close>, a \<^verbatim>\<open>TypeError\<close> of the runtime, an abort.\<close>

datatype error = Error string | TypeError | AbortError

text \<open>\<^verbatim>\<open>xs.join(sep)\<close> on an array of strings.\<close>

fun join :: "string \<Rightarrow> string list \<Rightarrow> string" where
  "join sep [] = []"
| "join sep [x] = x"
| "join sep (x # y # ys) = x @ sep @ join sep (y # ys)"

subsection \<open>Expressions\<close>

text \<open>
  The evaluation context (\<^verbatim>\<open>globals\<close>), a compile error, and the property
  specification \<^verbatim>\<open>createExpression\<close> is given.  A compiled expression is its
  \<^verbatim>\<open>evaluate\<close> method.
\<close>

record globals =
  accumulated :: jsval
  zoom :: int

record parse_error =
  key :: string
  message :: string

record expression_spec =
  spec_type :: string
  property_type :: string
  overridable :: bool
  transition :: bool

type_synonym evaluator = "globals \<Rightarrow> jsval \<Rightarrow> jsval"

type_synonym compiled = "parse_error list + evaluator"

subsection \<open>Typed arrays\<close>

text \<open>
  A \<^verbatim>\<open>Uint8Array\<close> is a view of \<open>byteLength\<close> bytes at \<open>byteOffset\<close>
  into an \<^verbatim>\<open>ArrayBuffer\<close>; the buffer's capacity is the length of its byte list.
\<close>

record uint8array =
  buffer :: "8 word list"
  byteOffset :: nat
  byteLength :: nat

definition valid_view :: "uint8array \<Rightarrow> bool" where
  "valid_view v \<longleftrightarrow> byteOffset v + byteLength v \<le> length (buffer v)"

definition view_bytes :: "uint8array \<Rightarrow> 8 word list" where
  "view_bytes v = take (byteLength v) (drop (byteOffset v) (buffer v))"

text \<open>\<^verbatim>\<open>new Uint8Array(typedArray)\<close>: a fresh buffer holding exactly the view's bytes.\<close>

definition new_Uint8Array :: "uint8array \<Rightarrow> uint8array" where
  "new_Uint8Array v =
     \<lparr>buffer = view_bytes v, byteOffset = 0, byteLength = byteLength v\<rparr>"

subsection \<open>Parameters of a load\<close>

record request_parameters =
  url :: string
  collectResourceTiming :: bool

text \<open>
  The state the two clustering callbacks close over: the objects \<^verbatim>\<open>globals\<close> and
  \<^verbatim>\<open>feature\<close> of \<^verbatim>\<open>getSuperclusterOptions\<close>, shared by both and mutated by each call.
\<close>

record closure_env =
  env_globals :: globals
  env_feature_properties :: jsval

type_synonym props = "(string \<times> jsval) list"

type_synonym map_callback = "closure_env \<Rightarrow> jsval \<Rightarrow> (error + props) \<times> closure_env"

type_synonym reduce_callback =
  "closure_env \<Rightarrow> props \<Rightarrow> jsval \<Rightarrow> error option \<times> props \<times> closure_env"

text \<open>
  The clustering configuration: the settings this file passes through untouched (radius,
  zoom range, point counts) and the two callbacks it installs.
\<close>

record supercluster_options =
  settings :: jsval
  map_callback :: "map_callback option"
  reduce_callback :: "reduce_callback option"

text \<open>
  \<^verbatim>\<open>LoadGeoJSONParameters\<close>.  An absent optional field is \<open>None\<close>.  The field
  \<^verbatim>\<open>data\<close> is declared a string, but nothing stops a caller from sending another
  value, and the loader tests its type, so it is any value here.  A cluster-property
  specification is the list of its entries \<^verbatim>\<open>name: [operator, mapExpression]\<close> in key
  enumeration order.
\<close>

record load_params =
  source :: "string option"
  request :: "request_parameters option"
  data :: "jsval option"
  dataDiff :: "jsval option"
  cluster :: bool
  filter_param :: "jsval option"
  promoteId :: "string option"
  geojsonVtOptions :: "jsval option"
  superclusterOptions :: "supercluster_options option"
  clusterProperties :: "(string \<times> jsval \<times> jsval) list option"

text \<open>\<^verbatim>\<open>${params.source}\<close> in a template literal.\<close>

definition source_text :: "load_params \<Rightarrow> string" where
  "source_text params = (case source params of None \<Rightarrow> ''undefined'' | Some s \<Rightarrow> s)"

subsection \<open>The updateable feature store\<close>

text \<open>
  \<^verbatim>\<open>_dataUpdateable\<close> is a \<^verbatim>\<open>Map\<close> from feature identifier to feature: the list of
  its entries in insertion order.
\<close>

type_synonym store = "(jsval \<times> jsval) list"

text \<open>\<^verbatim>\<open>Map.prototype.set\<close> and \<^verbatim>\<open>Array.from(map.values())\<close>.\<close>

fun map_set :: "store \<Rightarrow> jsval \<Rightarrow> jsval \<Rightarrow> store" where
  "map_set [] k v = [(k, v)]"
| "map_set ((k', v') # kvs) k v =
     (if k' = k then (k, v) # kvs else (k', v') # map_set kvs k v)"

definition map_values :: "store \<Rightarrow> jsval list" where
  "map_values st = map snd st"

text \<open>
  Modelled from the spec: \<^verbatim>\<open>getFeatureId\<close>, \<^verbatim>\<open>isUpdateableGeoJSON\<close> and
  \<^verbatim>\<open>toUpdateable\<close> of the module \<^verbatim>\<open>geojson_source_diff\<close>, which is not among the
  sources.  A feature's identifier is the value read from the property named by
  \<^verbatim>\<open>promoteId\<close> when one is configured, and the feature's own \<^verbatim>\<open>id\<close> otherwise.  A
  collection is updateable when every one of its features resolves an identifier that is
  neither \<^verbatim>\<open>null\<close> nor \<^verbatim>\<open>undefined\<close>; the store is then built from the features,
  each under its identifier.  A value with no feature array is not updateable.
\<close>

definition getFeatureId :: "jsval \<Rightarrow> string option \<Rightarrow> jsval" where
  "getFeatureId feature promote =
     (case promote of
        Some p \<Rightarrow> member (member feature ''properties'') p
      | None \<Rightarrow> member feature ''id'')"

definition non_null :: "jsval \<Rightarrow> bool" where
  "non_null v \<longleftrightarrow> v \<noteq> JNull \<and> v \<noteq> JUndefined"

definition isUpdateableGeoJSON :: "jsval \<Rightarrow> string option \<Rightarrow> bool" where
  "isUpdateableGeoJSON d promote =
     (case member d ''features'' of
        JArr fs \<Rightarrow> list_all (\<lambda>f. non_null (getFeatureId f promote)) fs
      | _ \<Rightarrow> False)"

definition toUpdateable :: "jsval \<Rightarrow> string option \<Rightarrow> store" where
  "toUpdateable d promote =
     (case member d ''features'' of
        JArr fs \<Rightarrow> foldl (\<lambda>st f. map_set st (getFeatureId f promote) f) [] fs
      | _ \<Rightarrow> [])"

subsection \<open>Collaborators\<close>

text \<open>
  What the file imports and calls.  \<open>'idx\<close> is the type of a built spatial index, of
  either kind.  A collaborator that can throw returns a sum.
  \<^item> \<open>JSON_parse\<close>: \<^verbatim>\<open>JSON.parse\<close>;
  \<^item> \<open>applySourceDiff\<close>: applies a diff to the store, under the promotion rule;
  \<^item> \<open>rewind\<close>: winding normalization, \<^verbatim>\<open>rewind(data, true)\<close>;
  \<^item> \<open>createExpression\<close>: the expression compiler, with the optional property
    specification;
  \<^item> \<open>geojsonvt\<close>: builds a tile index from the data and the tiling options;
  \<^item> \<open>supercluster\<close>: \<^verbatim>\<open>new Supercluster(options).load(features)\<close>;
  \<^item> \<open>getTile\<close>: the features of the index's tile at \<open>(z, x, y)\<close>, if it has one;
  \<^item> \<open>vtpbf\<close>: the tile encoder;
  \<^item> \<open>perf_finish\<close>: \<^verbatim>\<open>new RequestPerformance(request).finish()\<close>.
\<close>

record 'idx collaborators =
  JSON_parse :: "string \<Rightarrow> error + jsval"
  applySourceDiff :: "store \<Rightarrow> jsval \<Rightarrow> string option \<Rightarrow> store"
  rewind :: "jsval \<Rightarrow> error + jsval"
  createExpression :: "jsval \<Rightarrow> expression_spec option \<Rightarrow> compiled"
  geojsonvt :: "jsval \<Rightarrow> jsval option \<Rightarrow> error + 'idx"
  supercluster :: "supercluster_options option \<Rightarrow> jsval \<Rightarrow> error + 'idx"
  getTile :: "'idx \<Rightarrow> nat \<Rightarrow> nat \<Rightarrow> nat \<Rightarrow> jsval list option"
  vtpbf :: "jsval list \<Rightarrow> uint8array"
  perf_finish :: "request_parameters \<Rightarrow> jsval"

subsection \<open>The state of a source\<close>

text \<open>
  The outcome a caller of \<^verbatim>\<open>loadData\<close> sees: the promise resolves with
  \<^verbatim>\<open>{abandoned: true}\<close> or with a result that may carry resource timings under the
  source's name, or it rejects.
\<close>

datatype load_result = Abandoned | Loaded "(string \<times> jsval) option"

datatype settlement = Resolved load_result | Rejected error

text \<open>
  Where the \<^verbatim>\<open>loadGeoJSON\<close> promise of a call stands: waiting for the transport, or
  settled with its \<^verbatim>\<open>then\<close>/\<^verbatim>\<open>catch\<close> reaction queued.
\<close>

datatype phase = Fetching | Settled "error + jsval"

text \<open>
  The fields of the object, and the part of the runtime they point into.  Calls of
  \<^verbatim>\<open>loadData\<close> are numbered as they start; call \<open>i\<close> creates promise \<open>i\<close> and
  abort controller \<open>i\<close>.  \<open>pendingPromise = Some i\<close> says that \<^verbatim>\<open>_pendingPromise\<close>
  is the \<^verbatim>\<open>resolve\<close> function of promise \<open>i\<close>, \<open>pendingRequest = Some i\<close> that
  \<^verbatim>\<open>_pendingRequest\<close> is controller \<open>i\<close>.  \<open>promises\<close> holds the settlement of
  every settled promise, \<open>aborted\<close> the controllers whose \<^verbatim>\<open>abort()\<close> was called,
  \<open>inflight\<close> the calls whose \<^verbatim>\<open>then\<close>/\<^verbatim>\<open>catch\<close> reaction has not run yet.
\<close>

record 'idx worker_source =
  pendingPromise :: "nat option"
  pendingRequest :: "nat option"
  geoJSONIndex :: "'idx option"
  dataUpdateable :: "store option"
  loaded :: "nat list"
  promises :: "nat \<Rightarrow> settlement option"
  aborted :: "nat set"
  inflight :: "nat \<Rightarrow> (load_params \<times> phase) option"
  next_call :: nat

text \<open>A new source: nothing pending, no index, an empty store.\<close>

definition new_source :: "'idx worker_source" where
  "new_source =
     \<lparr>pendingPromise = None, pendingRequest = None, geoJSONIndex = None,
      dataUpdateable = Some [], loaded = [], promises = (\<lambda>i. None), aborted = {},
      inflight = (\<lambda>i. None), next_call = 0\<rparr>"

subsection \<open>Tile extraction\<close>

record tile_id =
  z :: nat
  x :: nat
  y :: nat

record tile_result =
  vectorTile :: "jsval list"
  rawData :: "8 word list"

text \<open>
  The view whose buffer is handed over: the encoder's own when it starts at offset zero and
  spans its whole buffer, a copy otherwise.
\<close>

definition tight :: "uint8array \<Rightarrow> uint8array" where
  "tight pbf =
     (if byteOffset pbf \<noteq> 0 \<or> byteLength pbf \<noteq> length (buffer pbf)
      then new_Uint8Array pbf else pbf)"

definition loadGeoJSONTile ::
  "'idx collaborators \<Rightarrow> tile_id \<Rightarrow> 'idx worker_source \<Rightarrow> tile_result option" where
  "loadGeoJSONTile ext canonical s =
     (case geoJSONIndex s of
        None \<Rightarrow> None
      | Some idx \<Rightarrow>
          (case getTile ext idx (z canonical) (x canonical) (y canonical) of
             None \<Rightarrow> None
           | Some features \<Rightarrow>
               Some \<lparr>vectorTile = features, rawData = buffer (tight (vtpbf ext features))\<rparr>))"

subsection \<open>Fetching and parsing: \<^verbatim>\<open>loadGeoJSON\<close>\<close>

text \<open>The two messages of the loader, each naming the source.\<close>

definition invalid_input :: "load_params \<Rightarrow> error" where
  "invalid_input params =
     Error (''Input data given to '' @ [CHR 0x27] @ source_text params @ [CHR 0x27] @
            '' is not a valid GeoJSON object.'')"

definition cannot_update :: "load_params \<Rightarrow> error" where
  "cannot_update params =
     Error (''Cannot update existing geojson data in '' @ source_text params)"

text \<open>
  \<^verbatim>\<open>isUpdateableGeoJSON(d, promoteId) ? toUpdateable(d, promoteId) : undefined\<close>, the
  value both full-load paths assign to \<^verbatim>\<open>_dataUpdateable\<close>.
\<close>

definition updateable_store :: "jsval \<Rightarrow> string option \<Rightarrow> store option" where
  "updateable_store d promote =
     (if isUpdateableGeoJSON d promote then Some (toUpdateable d promote) else None)"

text \<open>\<^verbatim>\<open>params.data\<close> when \<^verbatim>\<open>typeof params.data === 'string'\<close>.\<close>

definition string_data :: "load_params \<Rightarrow> string option" where
  "string_data params =
     (case data params of
        None \<Rightarrow> None
      | Some d \<Rightarrow> (case d of JStr txt \<Rightarrow> Some txt | _ \<Rightarrow> None))"

text \<open>
  An asynchronous function runs until its first \<^verbatim>\<open>await\<close>: \<^verbatim>\<open>loadGeoJSON\<close> either
  suspends on the transport, having called \<^verbatim>\<open>getJSON\<close> with the request and the
  call's abort controller, or has already returned or thrown.
\<close>

datatype loader_step = Await request_parameters | Return "error + jsval"

definition loadGeoJSON ::
  "'idx collaborators \<Rightarrow> load_params \<Rightarrow> 'idx worker_source \<Rightarrow>
     loader_step \<times> 'idx worker_source" where
  "loadGeoJSON ext params s =
     (case request params of
        Some r \<Rightarrow> (Await r, s)
      | None \<Rightarrow>
          (case string_data params of
             Some txt \<Rightarrow>
               (case JSON_parse ext txt of
                  Inl e \<Rightarrow> (Return (Inl (invalid_input params)), s)
                | Inr parsed \<Rightarrow>
                    (Return (Inr parsed),
                     s\<lparr>dataUpdateable := updateable_store parsed (promoteId params)\<rparr>))
           | None \<Rightarrow>
               (case dataDiff params of
                  Some diff \<Rightarrow>
                    (case dataUpdateable s of
                       Some st \<Rightarrow>
                         (let st' = applySourceDiff ext st diff (promoteId params) in
                          (Return (Inr (JObj [(''type'', JStr ''FeatureCollection''),
                                              (''features'', JArr (map_values st'))])),
                           s\<lparr>dataUpdateable := Some st'\<rparr>))
                     | None \<Rightarrow> (Return (Inl (cannot_update params)), s))
                | None \<Rightarrow> (Return (Inl (invalid_input params)), s))))"

text \<open>
  The rest of the request path, run when the transport settles the \<^verbatim>\<open>getJSON\<close>
  promise: a rejection is rethrown; a value replaces the store and is returned.
\<close>

definition loadGeoJSON_resume ::
  "load_params \<Rightarrow> error + jsval \<Rightarrow> 'idx worker_source \<Rightarrow>
     (error + jsval) \<times> 'idx worker_source" where
  "loadGeoJSON_resume params r s =
     (case r of
        Inl e \<Rightarrow> (Inl e, s)
      | Inr d \<Rightarrow> (Inr d, s\<lparr>dataUpdateable := updateable_store d (promoteId params)\<rparr>))"

subsection \<open>Cluster properties: \<^verbatim>\<open>getSuperclusterOptions\<close>\<close>

text \<open>
  The two expression tables.  An object's keys are distinct, so walking
  \<^verbatim>\<open>Object.keys(clusterProperties)\<close> and reading each entry is walking the entries.
  \<^verbatim>\<open>createExpression\<close> is called without a property specification, and the table keeps
  its \<^verbatim>\<open>value\<close> whatever the result: the compiled expression, or the error list.
\<close>

definition reduce_term :: "string \<Rightarrow> jsval \<Rightarrow> jsval" where
  "reduce_term k operator =
     (if typeof_string operator
      then JArr [operator, JArr [JStr ''accumulated''], JArr [JStr ''get'', JStr k]]
      else operator)"

definition mapExpressions ::
  "'idx collaborators \<Rightarrow> (string \<times> jsval \<times> jsval) list \<Rightarrow> (string \<times> compiled) list" where
  "mapExpressions ext cp =
     map (\<lambda>(k, operator, mapExpression). (k, createExpression ext mapExpression None)) cp"

definition reduceExpressions ::
  "'idx collaborators \<Rightarrow> (string \<times> jsval \<times> jsval) list \<Rightarrow> (string \<times> compiled) list" where
  "reduceExpressions ext cp =
     map (\<lambda>(k, operator, mapExpression).
            (k, createExpression ext (reduce_term k operator) None)) cp"

definition initial_env :: closure_env where
  "initial_env =
     \<lparr>env_globals = \<lparr>accumulated = JNull, zoom = 0\<rparr>, env_feature_properties = JNull\<rparr>"

definition feature_object :: "closure_env \<Rightarrow> jsval" where
  "feature_object env = JObj [(''properties'', env_feature_properties env)]"

text \<open>
  \<^verbatim>\<open>table[key].evaluate(globals, feature)\<close>: a table entry that holds an error list has
  no \<^verbatim>\<open>evaluate\<close> method, and calling it is a \<^verbatim>\<open>TypeError\<close>.
\<close>

definition evaluate_entry ::
  "(string \<times> compiled) list \<Rightarrow> string \<Rightarrow> closure_env \<Rightarrow> error + jsval" where
  "evaluate_entry tbl k env =
     (case map_of tbl k of
        None \<Rightarrow> Inl TypeError
      | Some c \<Rightarrow>
          (case c of
             Inl errs \<Rightarrow> Inl TypeError
           | Inr ev \<Rightarrow> Inr (ev (env_globals env) (feature_object env))))"

text \<open>The loop of the \<^verbatim>\<open>map\<close> callback, filling the fresh property bag.\<close>

fun map_loop ::
  "(string \<times> compiled) list \<Rightarrow> string list \<Rightarrow> closure_env \<Rightarrow> props \<Rightarrow> error + props" where
  "map_loop tbl [] env properties = Inr properties"
| "map_loop tbl (k # ks) env properties =
     (case evaluate_entry tbl k env of
        Inl e \<Rightarrow> Inl e
      | Inr v \<Rightarrow> map_loop tbl ks env (set_prop properties k v))"

definition supercluster_map ::
  "(string \<times> compiled) list \<Rightarrow> string list \<Rightarrow> map_callback" where
  "supercluster_map tbl propertyNames env pointProperties =
     (let env1 = env\<lparr>env_feature_properties := pointProperties\<rparr> in
      (map_loop tbl propertyNames env1 [], env1))"

text \<open>
  The loop of the \<^verbatim>\<open>reduce\<close> callback.  It mutates the accumulated properties in
  place, so what it has written stays written when a later name fails.
\<close>

fun reduce_loop ::
  "(string \<times> compiled) list \<Rightarrow> string list \<Rightarrow> closure_env \<Rightarrow> props \<Rightarrow>
     error option \<times> props \<times> closure_env" where
  "reduce_loop tbl [] env acc = (None, acc, env)"
| "reduce_loop tbl (k # ks) env acc =
     (let env1 = env\<lparr>env_globals := (env_globals env)\<lparr>accumulated := get_prop acc k\<rparr>\<rparr> in
      case evaluate_entry tbl k env1 of
        Inl e \<Rightarrow> (Some e, acc, env1)
      | Inr v \<Rightarrow> reduce_loop tbl ks env1 (set_prop acc k v))"

definition supercluster_reduce ::
  "(string \<times> compiled) list \<Rightarrow> string list \<Rightarrow> reduce_callback" where
  "supercluster_reduce tbl propertyNames env acc clusterProps =
     reduce_loop tbl propertyNames (env\<lparr>env_feature_properties := clusterProps\<rparr>) acc"

definition getSuperclusterOptions ::
  "'idx collaborators \<Rightarrow> load_params \<Rightarrow> supercluster_options option" where
  "getSuperclusterOptions ext params =
     (case clusterProperties params of
        None \<Rightarrow> superclusterOptions params
      | Some cp \<Rightarrow>
          (case superclusterOptions params of
             None \<Rightarrow> None
           | Some opts \<Rightarrow>
               Some (opts\<lparr>map_callback :=
                             Some (supercluster_map (mapExpressions ext cp) (map fst cp)),
                           reduce_callback :=
                             Some (supercluster_reduce (reduceExpressions ext cp) (map fst cp))\<rparr>)))"

subsection \<open>The load coordinator: \<^verbatim>\<open>loadData\<close>\<close>

text \<open>
  Settling a promise: the first call of \<^verbatim>\<open>resolve\<close> or \<^verbatim>\<open>reject\<close> decides, every
  later one does nothing.
\<close>

definition settle :: "nat \<Rightarrow> settlement \<Rightarrow> 'idx worker_source \<Rightarrow> 'idx worker_source" where
  "settle i v s =
     (case promises s i of
        None \<Rightarrow> s\<lparr>promises := (promises s)(i := Some v)\<rparr>
      | Some w \<Rightarrow> s)"

definition resolve :: "nat \<Rightarrow> load_result \<Rightarrow> 'idx worker_source \<Rightarrow> 'idx worker_source" where
  "resolve i r s = settle i (Resolved r) s"

definition reject :: "nat \<Rightarrow> error \<Rightarrow> 'idx worker_source \<Rightarrow> 'idx worker_source" where
  "reject i e s = settle i (Rejected e) s"

text \<open>\<^verbatim>\<open>this._pendingRequest?.abort()\<close>.\<close>

definition abort_pending :: "'idx worker_source \<Rightarrow> 'idx worker_source" where
  "abort_pending s =
     (case pendingRequest s of
        None \<Rightarrow> s
      | Some i \<Rightarrow> s\<lparr>aborted := insert i (aborted s)\<rparr>)"

text \<open>\<^verbatim>\<open>if (this._pendingPromise) this._pendingPromise({abandoned: true})\<close>.\<close>

definition abandon_pending :: "'idx worker_source \<Rightarrow> 'idx worker_source" where
  "abandon_pending s =
     (case pendingPromise s of
        None \<Rightarrow> s
      | Some i \<Rightarrow> resolve i Abandoned s)"

text \<open>
  The executor of the new promise, up to the point where \<^verbatim>\<open>then\<close> and \<^verbatim>\<open>catch\<close>
  are attached: the call becomes the pending one, with a fresh abort controller, and
  \<^verbatim>\<open>loadGeoJSON\<close> runs to its first suspension.
\<close>

definition start_load ::
  "'idx collaborators \<Rightarrow> load_params \<Rightarrow> 'idx worker_source \<Rightarrow> 'idx worker_source" where
  "start_load ext params s =
     (let i = next_call s;
          s1 = s\<lparr>pendingPromise := Some i, pendingRequest := Some i, next_call := Suc i\<rparr>;
          (step, s2) = loadGeoJSON ext params s1
      in s2\<lparr>inflight := (inflight s2)
               (i := Some (params, case step of Await r \<Rightarrow> Fetching | Return res \<Rightarrow> Settled res))\<rparr>)"

text \<open>
  \<^verbatim>\<open>loadData\<close>, as far as it runs before it returns the promise.  The promise it
  returns is the one numbered \<open>next_call s\<close>.
\<close>

definition loadData ::
  "'idx collaborators \<Rightarrow> load_params \<Rightarrow> 'idx worker_source \<Rightarrow> 'idx worker_source" where
  "loadData ext params s = start_load ext params (abandon_pending (abort_pending s))"

text \<open>The specification the filter is compiled against.\<close>

definition filter_spec :: expression_spec where
  "filter_spec =
     \<lparr>spec_type = ''boolean'', property_type = ''data-driven'', overridable = False,
      transition = False\<rparr>"

text \<open>The message of a compile failure.\<close>

definition compile_error_message :: "parse_error list \<Rightarrow> string" where
  "compile_error_message errs = join '', '' (map (\<lambda>err. key err @ '': '' @ message err) errs)"

text \<open>
  The filter step.  \<^verbatim>\<open>data.features.filter(...)\<close> is a \<^verbatim>\<open>TypeError\<close> when
  \<^verbatim>\<open>data.features\<close> is not an array.  The filter is evaluated in the context
  \<^verbatim>\<open>{zoom: 0}\<close>.
\<close>

definition apply_filter :: "'idx collaborators \<Rightarrow> load_params \<Rightarrow> jsval \<Rightarrow> error + jsval" where
  "apply_filter ext params d =
     (case filter_param params of
        None \<Rightarrow> Inr d
      | Some f \<Rightarrow>
          (case createExpression ext f (Some filter_spec) of
             Inl errs \<Rightarrow> Inl (Error (compile_error_message errs))
           | Inr ev \<Rightarrow>
               (case member d ''features'' of
                  JArr fs \<Rightarrow>
                    Inr (JObj [(''type'', JStr ''FeatureCollection''),
                               (''features'',
                                JArr (filter
                                        (\<lambda>feature.
                                           truthy (ev \<lparr>accumulated = JUndefined, zoom = 0\<rparr> feature))
                                        fs))])
                | _ \<Rightarrow> Inl TypeError)))"

text \<open>The body of the \<^verbatim>\<open>try\<close> block: the filter, then the index of the configured kind.\<close>

definition build_index :: "'idx collaborators \<Rightarrow> load_params \<Rightarrow> jsval \<Rightarrow> error + 'idx" where
  "build_index ext params d =
     (case apply_filter ext params d of
        Inl e \<Rightarrow> Inl e
      | Inr d' \<Rightarrow>
          (if cluster params
           then supercluster ext (getSuperclusterOptions ext params) (member d' ''features'')
           else geojsonvt ext d' (geojsonVtOptions params)))"

text \<open>
  The resource timings of the result: collected when the request asks for them, and
  present when \<^verbatim>\<open>perf.finish()\<close> returns something.
\<close>

definition resource_timing ::
  "'idx collaborators \<Rightarrow> load_params \<Rightarrow> (string \<times> jsval) option" where
  "resource_timing ext params =
     (case request params of
        None \<Rightarrow> None
      | Some r \<Rightarrow>
          (if collectResourceTiming r \<and> truthy (perf_finish ext r)
           then Some (source_text params, perf_finish ext r) else None))"

text \<open>
  The \<^verbatim>\<open>then\<close> reaction of call \<open>i\<close>, run with the value \<^verbatim>\<open>loadGeoJSON\<close> yielded.
  An exception of \<^verbatim>\<open>rewind\<close>, outside the \<^verbatim>\<open>try\<close> block, rejects the promise
  \<^verbatim>\<open>then\<close> returns, and so reaches the \<^verbatim>\<open>catch\<close> reaction behind it.
\<close>

definition loadData_then ::
  "'idx collaborators \<Rightarrow> nat \<Rightarrow> load_params \<Rightarrow> jsval \<Rightarrow> 'idx worker_source \<Rightarrow>
     'idx worker_source" where
  "loadData_then ext i params d s =
     (let s1 = s\<lparr>pendingPromise := None, pendingRequest := None\<rparr> in
      if \<not> truthy d then reject i (Error ''No data was returned'') s1
      else if \<not> typeof_object d then reject i (invalid_input params) s1
      else
        (case rewind ext d of
           Inl e \<Rightarrow> reject i e s1
         | Inr d1 \<Rightarrow>
             (case build_index ext params d1 of
                Inl e \<Rightarrow> reject i e s1
              | Inr idx \<Rightarrow>
                  resolve i (Loaded (resource_timing ext params))
                    (s1\<lparr>geoJSONIndex := Some idx, loaded := []\<rparr>))))"

text \<open>The \<^verbatim>\<open>catch\<close> reaction of call \<open>i\<close>: \<^verbatim>\<open>(err) => { reject(err); }\<close>.\<close>

definition loadData_catch :: "nat \<Rightarrow> error \<Rightarrow> 'idx worker_source \<Rightarrow> 'idx worker_source" where
  "loadData_catch i e s = reject i e s"

subsection \<open>Source removal\<close>

definition removeSource :: "'idx worker_source \<Rightarrow> 'idx worker_source" where
  "removeSource s = abandon_pending s"

subsection \<open>The event loop\<close>

text \<open>
  What can happen to a source, one step at a time: a caller calls \<^verbatim>\<open>loadData\<close> or
  \<^verbatim>\<open>removeSource\<close>; the transport settles the \<^verbatim>\<open>getJSON\<close> promise of a call that
  waits for it, and \<^verbatim>\<open>loadGeoJSON\<close> runs to its end; the reaction of a call whose
  \<^verbatim>\<open>loadGeoJSON\<close> promise has settled runs.  An event that is not enabled changes
  nothing.
\<close>

datatype event =
    CallLoadData load_params
  | CallRemoveSource
  | TransportSettles nat "error + jsval"
  | Reaction nat

definition transport_settles ::
  "nat \<Rightarrow> error + jsval \<Rightarrow> 'idx worker_source \<Rightarrow> 'idx worker_source" where
  "transport_settles i r s =
     (case inflight s i of
        None \<Rightarrow> s
      | Some (params, ph) \<Rightarrow>
          (case ph of
             Settled res \<Rightarrow> s
           | Fetching \<Rightarrow>
               (let (res, s1) = loadGeoJSON_resume params r s
                in s1\<lparr>inflight := (inflight s1)(i := Some (params, Settled res))\<rparr>)))"

definition reaction :: "'idx collaborators \<Rightarrow> nat \<Rightarrow> 'idx worker_source \<Rightarrow> 'idx worker_source" where
  "reaction ext i s =
     (case inflight s i of
        None \<Rightarrow> s
      | Some (params, ph) \<Rightarrow>
          (case ph of
             Fetching \<Rightarrow> s
           | Settled res \<Rightarrow>
               (let s1 = s\<lparr>inflight := (inflight s)(i := None)\<rparr> in
                case res of
                  Inl e \<Rightarrow> loadData_catch i e s1
                | Inr d \<Rightarrow> loadData_then ext i params d s1)))"

fun step :: "'idx collaborators \<Rightarrow> event \<Rightarrow> 'idx worker_source \<Rightarrow> 'idx worker_source" where
  "step ext (CallLoadData params) s = loadData ext params s"
| "step ext CallRemoveSource s = removeSource s"
| "step ext (TransportSettles i r) s = transport_settles i r s"
| "step ext (Reaction i) s = reaction ext i s"

fun run :: "'idx collaborators \<Rightarrow> event list \<Rightarrow> 'idx worker_source \<Rightarrow> 'idx worker_source" where
  "run ext [] s = s"
| "run ext (e # es) s = run ext es (step ext e s)"

subsection \<open>Shapes named by the specification\<close>

text \<open>A value of feature-collection shape: its type says so and its features are an array.\<close>

fun is_array :: "jsval \<Rightarrow> bool" where
  "is_array (JArr xs) = True"
| "is_array v = False"

definition is_feature_collection :: "jsval \<Rightarrow> bool" where
  "is_feature_collection d \<longleftrightarrow>
     member d ''type'' = JStr ''FeatureCollection'' \<and> is_array (member d ''features'')"

definition feature_collection :: "jsval list \<Rightarrow> jsval" where
  "feature_collection fs = JObj [(''type'', JStr ''FeatureCollection''), (''features'', JArr fs)]"

subsection \<open>Concrete collaborators and inputs\<close>

text \<open>
  A small, executable instance of the collaborators, on which the model is run: an index is
  the data it was built from, and has the single tile \<open>(0, 0, 0)\<close>; the tile encoder
  writes one byte per feature into the middle of a larger buffer; the compiler knows three
  expressions and reports two errors for a fourth; the parser knows three texts.
\<close>

definition point_feature :: "int \<Rightarrow> string \<Rightarrow> jsval" where
  "point_feature n kind =
     JObj [(''type'', JStr ''Feature''),
           (''id'', JNum n),
           (''properties'', JObj [(''kind'', JStr kind), (''count'', JNum 1)]),
           (''geometry'', JObj [(''type'', JStr ''Point''),
                                (''coordinates'', JArr [JNum 0, JNum 0])])]"

definition city :: jsval where
  "city = point_feature 1 ''city''"

definition town :: jsval where
  "town = point_feature 2 ''town''"

definition anonymous_feature :: jsval where
  "anonymous_feature =
     JObj [(''type'', JStr ''Feature''),
           (''properties'', JObj [(''kind'', JStr ''city'')]),
           (''geometry'', JNull)]"

definition city_text :: string where
  \<open>city_text = ''{"type":"FeatureCollection","features":[{"type":"Feature","id":1,"properties":{"kind":"city","count":1},"geometry":{"type":"Point","coordinates":[0,0]}}]}''\<close>

definition town_text :: string where
  \<open>town_text = ''{"type":"FeatureCollection","features":[{"type":"Feature","id":2,"properties":{"kind":"town","count":1},"geometry":{"type":"Point","coordinates":[0,0]}}]}''\<close>

definition anonymous_text :: string where
  \<open>anonymous_text = ''{"type":"FeatureCollection","features":[{"type":"Feature","properties":{"kind":"city"},"geometry":null}]}''\<close>

definition example_parse :: "string \<Rightarrow> error + jsval" where
  "example_parse txt =
     (if txt = city_text then Inr (feature_collection [city])
      else if txt = town_text then Inr (feature_collection [town])
      else if txt = anonymous_text then Inr (feature_collection [anonymous_feature])
      else Inl (Error ''Unexpected token''))"

definition kind_is_city :: jsval where
  "kind_is_city = JArr [JStr ''=='', JArr [JStr ''get'', JStr ''kind''], JStr ''city'']"

definition get_count :: jsval where
  "get_count = JArr [JStr ''get'', JStr ''count'']"

definition sum_count :: jsval where
  "sum_count = JArr [JStr ''+'', JArr [JStr ''accumulated''], JArr [JStr ''get'', JStr ''count'']]"

definition malformed :: jsval where
  "malformed = JArr [JStr ''all'', JArr [JStr ''nope''], JArr [JStr ''nah'']]"

fun js_plus :: "jsval \<Rightarrow> jsval \<Rightarrow> jsval" where
  "js_plus (JNum a) (JNum b) = JNum (a + b)"
| "js_plus u v = JNaN"

definition example_compile :: "jsval \<Rightarrow> expression_spec option \<Rightarrow> compiled" where
  "example_compile e spec =
     (if e = kind_is_city
      then Inr (\<lambda>g f. JBool (member (member f ''properties'') ''kind'' = JStr ''city''))
      else if e = get_count
      then Inr (\<lambda>g f. member (member f ''properties'') ''count'')
      else if e = sum_count
      then Inr (\<lambda>g f. js_plus (accumulated g) (member (member f ''properties'') ''count''))
      else if e = malformed
      then Inl [\<lparr>key = ''[1]'', message = ''Unknown expression nope.''\<rparr>,
                \<lparr>key = ''[2]'', message = ''Unknown expression nah.''\<rparr>]
      else Inl [\<lparr>key = [], message = ''Unknown expression.''\<rparr>])"

definition example_geojsonvt :: "jsval \<Rightarrow> jsval option \<Rightarrow> error + jsval" where
  "example_geojsonvt d opts =
     (if member d ''type'' = JStr ''FeatureCollection'' \<and> is_array (member d ''features'')
      then Inr d
      else if member d ''type'' = JStr ''Feature''
      then Inr (feature_collection [d])
      else Inl (Error ''Input data is not a valid GeoJSON object.''))"

definition example_supercluster :: "supercluster_options option \<Rightarrow> jsval \<Rightarrow> error + jsval" where
  "example_supercluster opts fs =
     (if is_array fs then Inr (JObj [(''type'', JStr ''FeatureCollection''), (''features'', fs)])
      else Inl TypeError)"

definition example_getTile :: "jsval \<Rightarrow> nat \<Rightarrow> nat \<Rightarrow> nat \<Rightarrow> jsval list option" where
  "example_getTile idx tz tx ty =
     (if tz = 0 \<and> tx = 0 \<and> ty = 0
      then (case member idx ''features'' of JArr fs \<Rightarrow> Some fs | _ \<Rightarrow> None)
      else None)"

definition example_vtpbf :: "jsval list \<Rightarrow> uint8array" where
  "example_vtpbf fs =
     \<lparr>buffer = [0, 0] @ map (\<lambda>f. 26) fs @ [0], byteOffset = 2, byteLength = length fs\<rparr>"

text \<open>The example diff removes the features whose identifiers it lists.\<close>

definition example_diff :: "store \<Rightarrow> jsval \<Rightarrow> string option \<Rightarrow> store" where
  "example_diff st diff promote =
     (case member diff ''remove'' of
        JArr ids \<Rightarrow> filter (\<lambda>(k, f). k \<notin> set ids) st
      | _ \<Rightarrow> st)"

definition example :: "jsval collaborators" where
  "example =
     \<lparr>JSON_parse = example_parse,
      applySourceDiff = example_diff,
      rewind = (\<lambda>d. Inr d),
      createExpression = example_compile,
      geojsonvt = example_geojsonvt,
      supercluster = example_supercluster,
      getTile = example_getTile,
      vtpbf = example_vtpbf,
      perf_finish = (\<lambda>r. JArr [JStr (url r)])\<rparr>"

text \<open>A compiler that fails, reporting the property type it was asked to compile against.\<close>

definition echo_compile :: "jsval \<Rightarrow> expression_spec option \<Rightarrow> compiled" where
  "echo_compile e spec =
     (case spec of
        None \<Rightarrow> Inl [\<lparr>key = ''property-type'', message = ''none''\<rparr>]
      | Some sp \<Rightarrow> Inl [\<lparr>key = ''property-type'', message = property_type sp\<rparr>])"

text \<open>Parameters with a source name and nothing else, to be extended field by field.\<close>

definition params_of :: "string \<Rightarrow> load_params" where
  "params_of name =
     \<lparr>source = Some name, request = None, data = None, dataDiff = None, cluster = False,
      filter_param = None, promoteId = None, geojsonVtOptions = None,
      superclusterOptions = None, clusterProperties = None\<rparr>"

definition example_request :: request_parameters where
  "example_request = \<lparr>url = ''/b.json'', collectResourceTiming = False\<rparr>"

section \<open>Properties\<close>

subsection \<open>Tile extraction\<close>

text \<open>
  Claim C9.  A tile extraction returns nothing, and raises nothing, when no index has been
  built or the index has no tile at the requested address.  Otherwise it returns the tile's
  features and the buffer of a view that starts at offset zero and spans its whole buffer,
  and that buffer holds exactly the bytes of the encoder's view: a view into a larger
  buffer has been copied to a tight one.
\<close>

theorem loadGeoJSONTile_result:
  "(geoJSONIndex s = None \<longrightarrow> loadGeoJSONTile ext c s = None) \<and>
   (\<forall>idx. geoJSONIndex s = Some idx \<and> getTile ext idx (z c) (x c) (y c) = None \<longrightarrow>
      loadGeoJSONTile ext c s = None) \<and>
   (\<forall>idx fs. geoJSONIndex s = Some idx \<and> getTile ext idx (z c) (x c) (y c) = Some fs \<and>
        valid_view (vtpbf ext fs) \<longrightarrow>
      loadGeoJSONTile ext c s =
        Some \<lparr>vectorTile = fs, rawData = buffer (tight (vtpbf ext fs))\<rparr> \<and>
      byteOffset (tight (vtpbf ext fs)) = 0 \<and>
      byteLength (tight (vtpbf ext fs)) = length (buffer (tight (vtpbf ext fs))) \<and>
      buffer (tight (vtpbf ext fs)) = view_bytes (vtpbf ext fs))"
  by (auto simp: loadGeoJSONTile_def tight_def new_Uint8Array_def view_bytes_def valid_view_def)

theorem loadGeoJSONTile_result_witness:
  "loadGeoJSONTile example \<lparr>z = 0, x = 0, y = 0\<rparr> new_source = None \<and>
   loadGeoJSONTile example \<lparr>z = 1, x = 0, y = 0\<rparr>
     (new_source\<lparr>geoJSONIndex := Some (feature_collection [city, town])\<rparr>) = None \<and>
   valid_view (vtpbf example [city, town]) \<and>
   byteOffset (vtpbf example [city, town]) = 2 \<and>
   loadGeoJSONTile example \<lparr>z = 0, x = 0, y = 0\<rparr>
     (new_source\<lparr>geoJSONIndex := Some (feature_collection [city, town])\<rparr>) =
     Some \<lparr>vectorTile = [city, town], rawData = [26, 26]\<rparr> \<and>
   byteOffset (tight (vtpbf example [city, town])) = 0 \<and>
   byteLength (tight (vtpbf example [city, town])) = 2 \<and>
   buffer (tight (vtpbf example [city, town])) = [26, 26]"
proof -
  let ?s = "new_source\<lparr>geoJSONIndex := Some (feature_collection [city, town])\<rparr> :: jsval worker_source"
  have none: "geoJSONIndex (new_source :: jsval worker_source) = None"
    by (simp add: new_source_def)
  have idx: "geoJSONIndex ?s = Some (feature_collection [city, town])"
    by simp
  have miss: "getTile example (feature_collection [city, town]) 1 0 0 = None"
    by (simp add: example_def example_getTile_def)
  have hit: "getTile example (feature_collection [city, town]) 0 0 0 = Some [city, town]"
    by (simp add: example_def example_getTile_def feature_collection_def)
  have view: "valid_view (vtpbf example [city, town])"
    by (simp add: example_def example_vtpbf_def valid_view_def)
  have bytes: "view_bytes (vtpbf example [city, town]) = [26, 26]"
    by (simp add: example_def example_vtpbf_def view_bytes_def)
  have off: "byteOffset (vtpbf example [city, town]) = 2"
    by (simp add: example_def example_vtpbf_def)
  from loadGeoJSONTile_result [of new_source example "\<lparr>z = 0, x = 0, y = 0\<rparr>"] none
  have a: "loadGeoJSONTile example \<lparr>z = 0, x = 0, y = 0\<rparr> (new_source :: jsval worker_source) = None"
    by blast
  from loadGeoJSONTile_result [of ?s example "\<lparr>z = 1, x = 0, y = 0\<rparr>"] idx miss
  have b: "loadGeoJSONTile example \<lparr>z = 1, x = 0, y = 0\<rparr> ?s = None"
    by simp
  from loadGeoJSONTile_result [of ?s example "\<lparr>z = 0, x = 0, y = 0\<rparr>"] idx hit view
  have c: "loadGeoJSONTile example \<lparr>z = 0, x = 0, y = 0\<rparr> ?s =
        Some \<lparr>vectorTile = [city, town], rawData = buffer (tight (vtpbf example [city, town]))\<rparr> \<and>
      byteOffset (tight (vtpbf example [city, town])) = 0 \<and>
      byteLength (tight (vtpbf example [city, town])) =
        length (buffer (tight (vtpbf example [city, town]))) \<and>
      buffer (tight (vtpbf example [city, town])) = view_bytes (vtpbf example [city, town])"
    by simp
  from a b c view bytes off show ?thesis
    by simp
qed

subsection \<open>The order of the inputs\<close>

lemma string_data_None_iff:
  "string_data params = None \<longleftrightarrow> (\<forall>d. data params = Some d \<longrightarrow> \<not> typeof_string d)"
  by (cases "data params"; simp add: string_data_def split: jsval.splits)

lemma string_data_Some_iff:
  "string_data params = Some txt \<longleftrightarrow> data params = Some (JStr txt)"
  by (cases "data params"; simp add: string_data_def split: jsval.splits)

text \<open>
  Claim C4.  \<^verbatim>\<open>loadGeoJSON\<close> takes its input in the order request, data, diff.  With a
  request descriptor it suspends on the transport, whatever else the parameters hold, and
  returns what the transport yields.  Otherwise, with a string of literal data it parses
  the string, whatever the diff.  Otherwise, with a diff it applies the diff to the store
  and returns the store's values as a collection, or fails when there is no store.  With
  none of the three it fails, and both failures name the source.
\<close>

theorem loadGeoJSON_priority:
  "(\<forall>r. request params = Some r \<longrightarrow> loadGeoJSON ext params s = (Await r, s)) \<and>
   (\<forall>d. loadGeoJSON_resume params (Inr d) s =
      (Inr d, s\<lparr>dataUpdateable := updateable_store d (promoteId params)\<rparr>)) \<and>
   (\<forall>e. loadGeoJSON_resume params (Inl e) s = (Inl e, s)) \<and>
   (\<forall>str. request params = None \<and> data params = Some (JStr str) \<longrightarrow>
      fst (loadGeoJSON ext params s) =
        Return (case JSON_parse ext str of
                  Inl e \<Rightarrow> Inl (invalid_input params)
                | Inr parsed \<Rightarrow> Inr parsed)) \<and>
   (\<forall>diff st. request params = None \<and> (\<forall>d. data params = Some d \<longrightarrow> \<not> typeof_string d) \<and>
        dataDiff params = Some diff \<and> dataUpdateable s = Some st \<longrightarrow>
      loadGeoJSON ext params s =
        (Return (Inr (feature_collection
                        (map_values (applySourceDiff ext st diff (promoteId params))))),
         s\<lparr>dataUpdateable := Some (applySourceDiff ext st diff (promoteId params))\<rparr>)) \<and>
   (\<forall>diff. request params = None \<and> (\<forall>d. data params = Some d \<longrightarrow> \<not> typeof_string d) \<and>
        dataDiff params = Some diff \<and> dataUpdateable s = None \<longrightarrow>
      loadGeoJSON ext params s =
        (Return (Inl (Error (''Cannot update existing geojson data in '' @ source_text params))),
         s)) \<and>
   (request params = None \<and> (\<forall>d. data params = Some d \<longrightarrow> \<not> typeof_string d) \<and>
        dataDiff params = None \<longrightarrow>
      loadGeoJSON ext params s =
        (Return (Inl (Error (''Input data given to '' @ [CHR 0x27] @ source_text params @
                             [CHR 0x27] @ '' is not a valid GeoJSON object.''))), s))"
proof (intro conjI allI impI)
  fix r
  assume "request params = Some r"
  then show "loadGeoJSON ext params s = (Await r, s)"
    by (simp add: loadGeoJSON_def)
next
  fix d
  show "loadGeoJSON_resume params (Inr d) s =
      (Inr d, s\<lparr>dataUpdateable := updateable_store d (promoteId params)\<rparr>)"
    by (simp add: loadGeoJSON_resume_def)
next
  fix e
  show "loadGeoJSON_resume params (Inl e) s = (Inl e, s)"
    by (simp add: loadGeoJSON_resume_def)
next
  fix str
  assume "request params = None \<and> data params = Some (JStr str)"
  then have "request params = None" "string_data params = Some str"
    by (simp_all add: string_data_Some_iff)
  then show "fst (loadGeoJSON ext params s) =
        Return (case JSON_parse ext str of
                  Inl e \<Rightarrow> Inl (invalid_input params)
                | Inr parsed \<Rightarrow> Inr parsed)"
    by (simp add: loadGeoJSON_def split: sum.splits)
next
  fix diff st
  assume "request params = None \<and> (\<forall>d. data params = Some d \<longrightarrow> \<not> typeof_string d) \<and>
        dataDiff params = Some diff \<and> dataUpdateable s = Some st"
  then have "request params = None" "string_data params = None" "dataDiff params = Some diff"
      "dataUpdateable s = Some st"
    by (simp_all add: string_data_None_iff)
  then show "loadGeoJSON ext params s =
        (Return (Inr (feature_collection
                        (map_values (applySourceDiff ext st diff (promoteId params))))),
         s\<lparr>dataUpdateable := Some (applySourceDiff ext st diff (promoteId params))\<rparr>)"
    by (simp add: loadGeoJSON_def feature_collection_def Let_def)
next
  fix diff
  assume "request params = None \<and> (\<forall>d. data params = Some d \<longrightarrow> \<not> typeof_string d) \<and>
        dataDiff params = Some diff \<and> dataUpdateable s = None"
  then have "request params = None" "string_data params = None" "dataDiff params = Some diff"
      "dataUpdateable s = None"
    by (simp_all add: string_data_None_iff)
  then show "loadGeoJSON ext params s =
        (Return (Inl (Error (''Cannot update existing geojson data in '' @ source_text params))),
         s)"
    by (simp add: loadGeoJSON_def cannot_update_def)
next
  assume "request params = None \<and> (\<forall>d. data params = Some d \<longrightarrow> \<not> typeof_string d) \<and>
        dataDiff params = None"
  then have "request params = None" "string_data params = None" "dataDiff params = None"
    by (simp_all add: string_data_None_iff)
  then show "loadGeoJSON ext params s =
        (Return (Inl (Error (''Input data given to '' @ [CHR 0x27] @ source_text params @
                             [CHR 0x27] @ '' is not a valid GeoJSON object.''))), s)"
    by (simp add: loadGeoJSON_def invalid_input_def)
qed


theorem loadGeoJSON_priority_witness:
  "loadGeoJSON example
     ((params_of ''s'')\<lparr>request := Some example_request, data := Some (JStr city_text),
                         dataDiff := Some (JObj [(''remove'', JArr [JNum 1])])\<rparr>)
     (new_source :: jsval worker_source) = (Await example_request, new_source) \<and>
   fst (loadGeoJSON example
     ((params_of ''s'')\<lparr>data := Some (JStr city_text),
                         dataDiff := Some (JObj [(''remove'', JArr [JNum 1])])\<rparr>)
     (new_source :: jsval worker_source)) = Return (Inr (feature_collection [city])) \<and>
   fst (loadGeoJSON example
     ((params_of ''s'')\<lparr>data := Some (JStr ''{''),
                         dataDiff := Some (JObj [(''remove'', JArr [JNum 1])])\<rparr>)
     (new_source :: jsval worker_source)) =
     Return (Inl (Error (''Input data given to '' @ [CHR 0x27] @ ''s'' @ [CHR 0x27] @
                         '' is not a valid GeoJSON object.''))) \<and>
   loadGeoJSON example
     ((params_of ''s'')\<lparr>dataDiff := Some (JObj [(''remove'', JArr [JNum 1])])\<rparr>)
     ((new_source :: jsval worker_source)\<lparr>dataUpdateable := Some [(JNum 1, city), (JNum 2, town)]\<rparr>) =
     (Return (Inr (feature_collection [town])),
      new_source\<lparr>dataUpdateable := Some [(JNum 2, town)]\<rparr>) \<and>
   loadGeoJSON example
     ((params_of ''s'')\<lparr>dataDiff := Some (JObj [(''remove'', JArr [JNum 1])])\<rparr>)
     ((new_source :: jsval worker_source)\<lparr>dataUpdateable := None\<rparr>) =
     (Return (Inl (Error ''Cannot update existing geojson data in s'')),
      new_source\<lparr>dataUpdateable := None\<rparr>) \<and>
   loadGeoJSON example (params_of ''s'') (new_source :: jsval worker_source) =
     (Return (Inl (Error (''Input data given to '' @ [CHR 0x27] @ ''s'' @ [CHR 0x27] @
                          '' is not a valid GeoJSON object.''))), new_source)"
proof -
  let ?diff = "JObj [(''remove'', JArr [JNum 1])]"
  let ?s = "new_source :: jsval worker_source"
  have parse: "JSON_parse example city_text = Inr (feature_collection [city])"
    by (simp add: example_def example_parse_def)
  have parse_fail: "JSON_parse example ''{'' = Inl (Error ''Unexpected token'')"
    by (simp add: example_def example_parse_def city_text_def town_text_def anonymous_text_def)
  have diff: "applySourceDiff example [(JNum 1, city), (JNum 2, town)] ?diff None =
      [(JNum 2, town)]"
    by (simp add: example_def example_diff_def)
  have src: "source_text (params_of ''s'') = ''s''"
    by (simp add: source_text_def params_of_def)
  from loadGeoJSON_priority
    [of "(params_of ''s'')\<lparr>request := Some example_request, data := Some (JStr city_text),
                             dataDiff := Some ?diff\<rparr>" example ?s]
  have a: "loadGeoJSON example
     ((params_of ''s'')\<lparr>request := Some example_request, data := Some (JStr city_text),
                         dataDiff := Some ?diff\<rparr>) ?s = (Await example_request, ?s)"
    by simp
  from loadGeoJSON_priority
    [of "(params_of ''s'')\<lparr>data := Some (JStr city_text), dataDiff := Some ?diff\<rparr>" example ?s]
    parse
  have b: "fst (loadGeoJSON example
     ((params_of ''s'')\<lparr>data := Some (JStr city_text), dataDiff := Some ?diff\<rparr>) ?s) =
     Return (Inr (feature_collection [city]))"
    by (simp add: params_of_def)
  from loadGeoJSON_priority
    [of "(params_of ''s'')\<lparr>data := Some (JStr ''{''), dataDiff := Some ?diff\<rparr>" example ?s]
    parse_fail
  have c: "fst (loadGeoJSON example
     ((params_of ''s'')\<lparr>data := Some (JStr ''{''), dataDiff := Some ?diff\<rparr>) ?s) =
     Return (Inl (Error (''Input data given to '' @ [CHR 0x27] @ ''s'' @ [CHR 0x27] @
                         '' is not a valid GeoJSON object.'')))"
    by (simp add: params_of_def invalid_input_def source_text_def)
  from loadGeoJSON_priority
    [of "(params_of ''s'')\<lparr>dataDiff := Some ?diff\<rparr>" example
        "?s\<lparr>dataUpdateable := Some [(JNum 1, city), (JNum 2, town)]\<rparr>"]
    diff
  have d: "loadGeoJSON example ((params_of ''s'')\<lparr>dataDiff := Some ?diff\<rparr>)
     (?s\<lparr>dataUpdateable := Some [(JNum 1, city), (JNum 2, town)]\<rparr>) =
     (Return (Inr (feature_collection [town])), ?s\<lparr>dataUpdateable := Some [(JNum 2, town)]\<rparr>)"
    by (simp add: params_of_def map_values_def)
  from loadGeoJSON_priority
    [of "(params_of ''s'')\<lparr>dataDiff := Some ?diff\<rparr>" example "?s\<lparr>dataUpdateable := None\<rparr>"]
  have e: "loadGeoJSON example ((params_of ''s'')\<lparr>dataDiff := Some ?diff\<rparr>)
     (?s\<lparr>dataUpdateable := None\<rparr>) =
     (Return (Inl (Error ''Cannot update existing geojson data in s'')),
      ?s\<lparr>dataUpdateable := None\<rparr>)"
    by (simp add: params_of_def source_text_def)
  from loadGeoJSON_priority [of "params_of ''s''" example ?s] src
  have f: "loadGeoJSON example (params_of ''s'') ?s =
     (Return (Inl (Error (''Input data given to '' @ [CHR 0x27] @ ''s'' @ [CHR 0x27] @
                          '' is not a valid GeoJSON object.''))), ?s)"
    by (simp add: params_of_def)
  from a b c d e f show ?thesis
    by simp
qed

text \<open>
  Claim C10.  Without a request descriptor, a \<^verbatim>\<open>data\<close> value that is present but not
  a string is never used: the loader does what it does when \<^verbatim>\<open>data\<close> is absent, and
  never consults the parser.  It takes the diff path when a diff is present, and otherwise
  fails with the invalid-GeoJSON-object error that names the source.
\<close>

theorem non_string_data_is_ignored:
  assumes "request params = None" and "data params = Some d" and "\<not> typeof_string d"
  shows "loadGeoJSON ext params s = loadGeoJSON ext (params\<lparr>data := None\<rparr>) s \<and>
     loadGeoJSON (ext\<lparr>JSON_parse := parse\<rparr>) params s = loadGeoJSON ext params s \<and>
     (\<forall>diff st. dataDiff params = Some diff \<and> dataUpdateable s = Some st \<longrightarrow>
        loadGeoJSON ext params s =
          (Return (Inr (feature_collection
                          (map_values (applySourceDiff ext st diff (promoteId params))))),
           s\<lparr>dataUpdateable := Some (applySourceDiff ext st diff (promoteId params))\<rparr>)) \<and>
     (\<forall>diff. dataDiff params = Some diff \<and> dataUpdateable s = None \<longrightarrow>
        loadGeoJSON ext params s =
          (Return (Inl (Error (''Cannot update existing geojson data in '' @
                               source_text params))), s)) \<and>
     (dataDiff params = None \<longrightarrow>
        loadGeoJSON ext params s =
          (Return (Inl (Error (''Input data given to '' @ [CHR 0x27] @ source_text params @
                               [CHR 0x27] @ '' is not a valid GeoJSON object.''))), s))"
proof -
  from assms have sd: "string_data params = None"
    by (simp add: string_data_None_iff)
  have sd': "string_data (params\<lparr>data := None\<rparr>) = None"
    by (simp add: string_data_def)
  have msg: "invalid_input (params\<lparr>data := None\<rparr>) = invalid_input params"
      "cannot_update (params\<lparr>data := None\<rparr>) = cannot_update params"
    by (simp_all add: invalid_input_def cannot_update_def source_text_def)
  have same: "loadGeoJSON ext params s = loadGeoJSON ext (params\<lparr>data := None\<rparr>) s"
    using assms(1) sd sd' msg by (simp add: loadGeoJSON_def split: option.splits)
  have parser: "loadGeoJSON (ext\<lparr>JSON_parse := parse\<rparr>) params s = loadGeoJSON ext params s"
    using assms(1) sd by (simp add: loadGeoJSON_def split: option.splits)
  have applied: "\<forall>diff st. dataDiff params = Some diff \<and> dataUpdateable s = Some st \<longrightarrow>
        loadGeoJSON ext params s =
          (Return (Inr (feature_collection
                          (map_values (applySourceDiff ext st diff (promoteId params))))),
           s\<lparr>dataUpdateable := Some (applySourceDiff ext st diff (promoteId params))\<rparr>)"
    using assms(1) sd by (simp add: loadGeoJSON_def feature_collection_def Let_def)
  have refused: "\<forall>diff. dataDiff params = Some diff \<and> dataUpdateable s = None \<longrightarrow>
        loadGeoJSON ext params s =
          (Return (Inl (Error (''Cannot update existing geojson data in '' @
                               source_text params))), s)"
    using assms(1) sd by (simp add: loadGeoJSON_def cannot_update_def)
  have missing: "dataDiff params = None \<longrightarrow>
        loadGeoJSON ext params s =
          (Return (Inl (Error (''Input data given to '' @ [CHR 0x27] @ source_text params @
                               [CHR 0x27] @ '' is not a valid GeoJSON object.''))), s)"
    using assms(1) sd by (simp add: loadGeoJSON_def invalid_input_def)
  from same parser applied refused missing show ?thesis
    by blast
qed

theorem non_string_data_is_ignored_witness:
  "request ((params_of ''s'')\<lparr>data := Some (feature_collection [city])\<rparr>) = None \<and>
   \<not> typeof_string (feature_collection [city]) \<and>
   loadGeoJSON example ((params_of ''s'')\<lparr>data := Some (feature_collection [city])\<rparr>)
     (new_source :: jsval worker_source) =
     (Return (Inl (Error (''Input data given to '' @ [CHR 0x27] @ ''s'' @ [CHR 0x27] @
                          '' is not a valid GeoJSON object.''))), new_source) \<and>
   loadGeoJSON example
     ((params_of ''s'')\<lparr>data := Some (feature_collection [city]),
                         dataDiff := Some (JObj [(''remove'', JArr [JNum 1])])\<rparr>)
     ((new_source :: jsval worker_source)\<lparr>dataUpdateable := Some [(JNum 1, city), (JNum 2, town)]\<rparr>) =
     (Return (Inr (feature_collection [town])),
      new_source\<lparr>dataUpdateable := Some [(JNum 2, town)]\<rparr>)"
proof -
  let ?diff = "JObj [(''remove'', JArr [JNum 1])]"
  let ?s = "new_source :: jsval worker_source"
  let ?p = "(params_of ''s'')\<lparr>data := Some (feature_collection [city])\<rparr>"
  let ?q = "(params_of ''s'')\<lparr>data := Some (feature_collection [city]), dataDiff := Some ?diff\<rparr>"
  have req: "request ?p = None" "request ?q = None"
    by (simp_all add: params_of_def)
  have dat: "data ?p = Some (feature_collection [city])" "data ?q = Some (feature_collection [city])"
    by simp_all
  have obj: "\<not> typeof_string (feature_collection [city])"
    by (simp add: feature_collection_def)
  have diff: "applySourceDiff example [(JNum 1, city), (JNum 2, town)] ?diff None =
      [(JNum 2, town)]"
    by (simp add: example_def example_diff_def)
  from non_string_data_is_ignored
    [OF req(1) dat(1) obj, where ext = example and s = ?s and parse = example_parse,
     THEN conjunct2, THEN conjunct2, THEN conjunct2, THEN conjunct2]
  have a: "loadGeoJSON example ?p ?s =
     (Return (Inl (Error (''Input data given to '' @ [CHR 0x27] @ ''s'' @ [CHR 0x27] @
                          '' is not a valid GeoJSON object.''))), ?s)"
    by (simp add: params_of_def source_text_def)
  from non_string_data_is_ignored
    [OF req(2) dat(2) obj, where ext = example and parse = example_parse
       and s = "?s\<lparr>dataUpdateable := Some [(JNum 1, city), (JNum 2, town)]\<rparr>",
     THEN conjunct2, THEN conjunct2, THEN conjunct1] diff
  have b: "loadGeoJSON example ?q (?s\<lparr>dataUpdateable := Some [(JNum 1, city), (JNum 2, town)]\<rparr>) =
     (Return (Inr (feature_collection [town])), ?s\<lparr>dataUpdateable := Some [(JNum 2, town)]\<rparr>)"
    by (simp add: params_of_def map_values_def)
  from req(1) obj a b show ?thesis
    by simp
qed

subsection \<open>The updateable feature store\<close>

lemma keys_map_set: "fst ` set (map_set st k v) = insert k (fst ` set st)"
  by (induction st k v rule: map_set.induct) auto

lemma keys_foldl_map_set:
  "fst ` set (foldl (\<lambda>st f. map_set st (ident f) f) st0 fs) = fst ` set st0 \<union> ident ` set fs"
  by (induction fs arbitrary: st0) (auto simp: keys_map_set)

lemma keys_toUpdateable:
  "member d ''features'' = JArr fs \<Longrightarrow>
     fst ` set (toUpdateable d promote) = (\<lambda>f. getFeatureId f promote) ` set fs"
  by (simp add: toUpdateable_def keys_foldl_map_set)

lemma updateable_store_collection:
  "member d ''features'' = JArr fs \<Longrightarrow>
     updateable_store d promote =
       (if \<forall>f \<in> set fs. non_null (getFeatureId f promote)
        then Some (toUpdateable d promote) else None)"
  by (simp add: updateable_store_def isUpdateableGeoJSON_def list_all_iff)

text \<open>
  Claim C7.  A full load that obtains a collection, by parsing literal data or from the
  transport, leaves the store rebuilt from that collection when every feature resolves an
  identifier that is not null under the promotion rule, the store's keys being the features'
  identifiers, and leaves no store otherwise.  A load with a diff fails with the message
  that names the source exactly when there is no store; when there is one it applies the
  diff to it and returns the store's values as a collection.
\<close>

theorem updateable_store_lifecycle:
  "(\<forall>str fc fs. request params = None \<and> data params = Some (JStr str) \<and>
        JSON_parse ext str = Inr fc \<and> member fc ''features'' = JArr fs \<longrightarrow>
      dataUpdateable (snd (loadGeoJSON ext params s)) =
        (if \<forall>f \<in> set fs. non_null (getFeatureId f (promoteId params))
         then Some (toUpdateable fc (promoteId params)) else None)) \<and>
   (\<forall>fc fs. member fc ''features'' = JArr fs \<longrightarrow>
      dataUpdateable (snd (loadGeoJSON_resume params (Inr fc) s)) =
        (if \<forall>f \<in> set fs. non_null (getFeatureId f (promoteId params))
         then Some (toUpdateable fc (promoteId params)) else None) \<and>
      fst ` set (toUpdateable fc (promoteId params)) =
        (\<lambda>f. getFeatureId f (promoteId params)) ` set fs) \<and>
   (\<forall>diff. request params = None \<and> (\<forall>d. data params = Some d \<longrightarrow> \<not> typeof_string d) \<and>
        dataDiff params = Some diff \<longrightarrow>
      (fst (loadGeoJSON ext params s) =
         Return (Inl (Error (''Cannot update existing geojson data in '' @ source_text params)))
       \<longleftrightarrow> dataUpdateable s = None) \<and>
      (\<forall>st. dataUpdateable s = Some st \<longrightarrow>
         loadGeoJSON ext params s =
           (Return (Inr (feature_collection
                           (map_values (applySourceDiff ext st diff (promoteId params))))),
            s\<lparr>dataUpdateable := Some (applySourceDiff ext st diff (promoteId params))\<rparr>)))"
proof (intro conjI allI impI)
  fix str fc fs
  assume a: "request params = None \<and> data params = Some (JStr str) \<and>
        JSON_parse ext str = Inr fc \<and> member fc ''features'' = JArr fs"
  then have "string_data params = Some str"
    by (simp add: string_data_Some_iff)
  with a have "dataUpdateable (snd (loadGeoJSON ext params s)) =
      updateable_store fc (promoteId params)"
    by (simp add: loadGeoJSON_def)
  with a show "dataUpdateable (snd (loadGeoJSON ext params s)) =
        (if \<forall>f \<in> set fs. non_null (getFeatureId f (promoteId params))
         then Some (toUpdateable fc (promoteId params)) else None)"
    by (simp add: updateable_store_collection)
next
  fix fc fs
  assume "member fc ''features'' = JArr fs"
  then show "dataUpdateable (snd (loadGeoJSON_resume params (Inr fc) s)) =
        (if \<forall>f \<in> set fs. non_null (getFeatureId f (promoteId params))
         then Some (toUpdateable fc (promoteId params)) else None)"
    by (simp add: loadGeoJSON_resume_def updateable_store_collection)
next
  fix fc fs
  assume "member fc ''features'' = JArr fs"
  then show "fst ` set (toUpdateable fc (promoteId params)) =
        (\<lambda>f. getFeatureId f (promoteId params)) ` set fs"
    by (rule keys_toUpdateable)
next
  fix diff
  assume a: "request params = None \<and> (\<forall>d. data params = Some d \<longrightarrow> \<not> typeof_string d) \<and>
        dataDiff params = Some diff"
  then have sd: "string_data params = None"
    by (simp add: string_data_None_iff)
  with a show "(fst (loadGeoJSON ext params s) =
         Return (Inl (Error (''Cannot update existing geojson data in '' @ source_text params))))
       = (dataUpdateable s = None)"
    by (cases "dataUpdateable s") (simp_all add: loadGeoJSON_def cannot_update_def Let_def)
next
  fix diff st
  assume a: "request params = None \<and> (\<forall>d. data params = Some d \<longrightarrow> \<not> typeof_string d) \<and>
        dataDiff params = Some diff" and st: "dataUpdateable s = Some st"
  then have sd: "string_data params = None"
    by (simp add: string_data_None_iff)
  with a st show "loadGeoJSON ext params s =
           (Return (Inr (feature_collection
                           (map_values (applySourceDiff ext st diff (promoteId params))))),
            s\<lparr>dataUpdateable := Some (applySourceDiff ext st diff (promoteId params))\<rparr>)"
    by (simp add: loadGeoJSON_def feature_collection_def Let_def)
qed

theorem updateable_store_lifecycle_witness:
  "dataUpdateable (snd (loadGeoJSON example ((params_of ''s'')\<lparr>data := Some (JStr city_text)\<rparr>)
     ((new_source :: jsval worker_source)\<lparr>dataUpdateable := None\<rparr>))) = Some [(JNum 1, city)] \<and>
   dataUpdateable (snd (loadGeoJSON example
     ((params_of ''s'')\<lparr>data := Some (JStr anonymous_text)\<rparr>)
     (new_source :: jsval worker_source))) = None \<and>
   dataUpdateable (snd (loadGeoJSON_resume
     ((params_of ''s'')\<lparr>request := Some example_request, promoteId := Some ''kind''\<rparr>)
     (Inr (feature_collection [city, town])) (new_source :: jsval worker_source))) =
     Some [(JStr ''city'', city), (JStr ''town'', town)] \<and>
   fst (loadGeoJSON example
     ((params_of ''s'')\<lparr>dataDiff := Some (JObj [(''remove'', JArr [JNum 1])])\<rparr>)
     ((new_source :: jsval worker_source)\<lparr>dataUpdateable := None\<rparr>)) =
     Return (Inl (Error ''Cannot update existing geojson data in s'')) \<and>
   loadGeoJSON example
     ((params_of ''s'')\<lparr>dataDiff := Some (JObj [(''remove'', JArr [JNum 1])])\<rparr>)
     ((new_source :: jsval worker_source)\<lparr>dataUpdateable := Some [(JNum 1, city), (JNum 2, town)]\<rparr>) =
     (Return (Inr (feature_collection [town])),
      new_source\<lparr>dataUpdateable := Some [(JNum 2, town)]\<rparr>)"
proof -
  let ?diff = "JObj [(''remove'', JArr [JNum 1])]"
  let ?s = "new_source :: jsval worker_source"
  have parse1: "JSON_parse example city_text = Inr (feature_collection [city])"
    by (simp add: example_def example_parse_def)
  have parse2: "JSON_parse example anonymous_text = Inr (feature_collection [anonymous_feature])"
    by (simp add: example_def example_parse_def city_text_def town_text_def anonymous_text_def)
  have features: "\<And>fs. member (feature_collection fs) ''features'' = JArr fs"
    by (simp add: feature_collection_def)
  have ids: "getFeatureId city None = JNum 1" "getFeatureId anonymous_feature None = JUndefined"
      "getFeatureId city (Some ''kind'') = JStr ''city''"
      "getFeatureId town (Some ''kind'') = JStr ''town''"
    by (simp_all add: getFeatureId_def city_def town_def point_feature_def anonymous_feature_def)
  have stores: "toUpdateable (feature_collection [city]) None = [(JNum 1, city)]"
      "toUpdateable (feature_collection [city, town]) (Some ''kind'') =
         [(JStr ''city'', city), (JStr ''town'', town)]"
    by (simp_all add: toUpdateable_def features ids)
  have diff: "applySourceDiff example [(JNum 1, city), (JNum 2, town)] ?diff None =
      [(JNum 2, town)]"
    by (simp add: example_def example_diff_def)
  note th = updateable_store_lifecycle
  from th [of "(params_of ''s'')\<lparr>data := Some (JStr city_text)\<rparr>" example
      "?s\<lparr>dataUpdateable := None\<rparr>", THEN conjunct1, rule_format,
      of city_text "feature_collection [city]" "[city]"] parse1
  have a: "dataUpdateable (snd (loadGeoJSON example
      ((params_of ''s'')\<lparr>data := Some (JStr city_text)\<rparr>) (?s\<lparr>dataUpdateable := None\<rparr>))) =
      Some [(JNum 1, city)]"
    by (simp add: params_of_def features ids stores non_null_def)
  from th [of "(params_of ''s'')\<lparr>data := Some (JStr anonymous_text)\<rparr>" example ?s,
      THEN conjunct1, rule_format,
      of anonymous_text "feature_collection [anonymous_feature]" "[anonymous_feature]"] parse2
  have b: "dataUpdateable (snd (loadGeoJSON example
      ((params_of ''s'')\<lparr>data := Some (JStr anonymous_text)\<rparr>) ?s)) = None"
    by (simp add: params_of_def features ids non_null_def)
  from th [of "(params_of ''s'')\<lparr>request := Some example_request, promoteId := Some ''kind''\<rparr>"
      example ?s, THEN conjunct2, THEN conjunct1, rule_format,
      of "feature_collection [city, town]" "[city, town]"]
  have c: "dataUpdateable (snd (loadGeoJSON_resume
      ((params_of ''s'')\<lparr>request := Some example_request, promoteId := Some ''kind''\<rparr>)
      (Inr (feature_collection [city, town])) ?s)) =
      Some [(JStr ''city'', city), (JStr ''town'', town)]"
    by (simp add: features ids stores non_null_def)
  from th [of "(params_of ''s'')\<lparr>dataDiff := Some ?diff\<rparr>" example
      "?s\<lparr>dataUpdateable := None\<rparr>", THEN conjunct2, THEN conjunct2, rule_format, of ?diff]
  have d: "fst (loadGeoJSON example ((params_of ''s'')\<lparr>dataDiff := Some ?diff\<rparr>)
      (?s\<lparr>dataUpdateable := None\<rparr>)) =
      Return (Inl (Error ''Cannot update existing geojson data in s''))"
    by (simp add: params_of_def source_text_def)
  from th [of "(params_of ''s'')\<lparr>dataDiff := Some ?diff\<rparr>" example
      "?s\<lparr>dataUpdateable := Some [(JNum 1, city), (JNum 2, town)]\<rparr>",
      THEN conjunct2, THEN conjunct2, rule_format, of ?diff] diff
  have e: "loadGeoJSON example ((params_of ''s'')\<lparr>dataDiff := Some ?diff\<rparr>)
      (?s\<lparr>dataUpdateable := Some [(JNum 1, city), (JNum 2, town)]\<rparr>) =
      (Return (Inr (feature_collection [town])), ?s\<lparr>dataUpdateable := Some [(JNum 2, town)]\<rparr>)"
    by (simp add: params_of_def map_values_def)
  from a b c d e show ?thesis
    by simp
qed

subsection \<open>Validation of the loaded value\<close>

text \<open>
  A promise that is settled stays as it is; settling touches nothing else.
\<close>

lemma promises_settle:
  "promises (settle i v s) j = (if j = i \<and> promises s i = None then Some v else promises s j)"
  by (simp add: settle_def split: option.splits)

lemma settle_fields [simp]:
  "pendingPromise (settle i v s) = pendingPromise s"
  "pendingRequest (settle i v s) = pendingRequest s"
  "geoJSONIndex (settle i v s) = geoJSONIndex s"
  "dataUpdateable (settle i v s) = dataUpdateable s"
  "loaded (settle i v s) = loaded s"
  "aborted (settle i v s) = aborted s"
  "inflight (settle i v s) = inflight s"
  "next_call (settle i v s) = next_call s"
  by (simp_all add: settle_def split: option.splits)

text \<open>
  Claim C5, as the code has it.  When \<^verbatim>\<open>loadGeoJSON\<close> has yielded a value and the
  call's promise is still open: a falsy value (\<^verbatim>\<open>null\<close> and \<^verbatim>\<open>undefined\<close> among
  them) rejects the load with \<^verbatim>\<open>No data was returned\<close>; a truthy value that is not an
  object rejects it with the invalid-input error that names the source; in both cases the
  index is left alone and no collaborator is consulted.  Every other value, a truthy object
  of whatever shape, goes on to winding normalization and then to filtering and indexing,
  and the load ends as those end.
\<close>

theorem loadData_then_validation:
  assumes "promises s i = None"
  shows "(\<not> truthy d \<longrightarrow>
       promises (loadData_then ext i params d s) i =
         Some (Rejected (Error ''No data was returned'')) \<and>
       geoJSONIndex (loadData_then ext i params d s) = geoJSONIndex s \<and>
       loadData_then ext i params d s = loadData_then ext' i params d s) \<and>
     (truthy d \<and> \<not> typeof_object d \<longrightarrow>
       promises (loadData_then ext i params d s) i =
         Some (Rejected (Error (''Input data given to '' @ [CHR 0x27] @ source_text params @
                                [CHR 0x27] @ '' is not a valid GeoJSON object.''))) \<and>
       geoJSONIndex (loadData_then ext i params d s) = geoJSONIndex s \<and>
       loadData_then ext i params d s = loadData_then ext' i params d s) \<and>
     (truthy d \<and> typeof_object d \<longrightarrow>
       (\<forall>e. rewind ext d = Inl e \<longrightarrow>
          promises (loadData_then ext i params d s) i = Some (Rejected e) \<and>
          geoJSONIndex (loadData_then ext i params d s) = geoJSONIndex s) \<and>
       (\<forall>d1 e. rewind ext d = Inr d1 \<and> build_index ext params d1 = Inl e \<longrightarrow>
          promises (loadData_then ext i params d s) i = Some (Rejected e) \<and>
          geoJSONIndex (loadData_then ext i params d s) = geoJSONIndex s) \<and>
       (\<forall>d1 idx. rewind ext d = Inr d1 \<and> build_index ext params d1 = Inr idx \<longrightarrow>
          promises (loadData_then ext i params d s) i =
            Some (Resolved (Loaded (resource_timing ext params))) \<and>
          geoJSONIndex (loadData_then ext i params d s) = Some idx \<and>
          loaded (loadData_then ext i params d s) = []))"
  using assms
  by (simp add: loadData_then_def reject_def resolve_def promises_settle invalid_input_def)

theorem loadData_then_validation_witness:
  "promises (new_source :: jsval worker_source) 0 = None \<and>
   promises (loadData_then example 0 (params_of ''s'') JNull new_source) 0 =
     Some (Rejected (Error ''No data was returned'')) \<and>
   promises (loadData_then example 0 (params_of ''s'') JUndefined new_source) 0 =
     Some (Rejected (Error ''No data was returned'')) \<and>
   promises (loadData_then example 0 (params_of ''s'') (JNum 5) new_source) 0 =
     Some (Rejected (Error (''Input data given to '' @ [CHR 0x27] @ ''s'' @ [CHR 0x27] @
                            '' is not a valid GeoJSON object.''))) \<and>
   geoJSONIndex (loadData_then example 0 (params_of ''s'') (JNum 5) new_source) = None \<and>
   promises (loadData_then example 0 (params_of ''s'') (feature_collection [city, town])
     new_source) 0 = Some (Resolved (Loaded None)) \<and>
   geoJSONIndex (loadData_then example 0 (params_of ''s'') (feature_collection [city, town])
     new_source) = Some (feature_collection [city, town])"
proof -
  let ?s = "new_source :: jsval worker_source"
  let ?fc = "feature_collection [city, town]"
  have fresh: "promises ?s 0 = None" "geoJSONIndex ?s = None"
    by (simp_all add: new_source_def)
  have src: "source_text (params_of ''s'') = ''s''"
    by (simp add: source_text_def params_of_def)
  have obj: "truthy ?fc" "typeof_object ?fc"
    by (simp_all add: feature_collection_def)
  have rew: "rewind example ?fc = Inr ?fc"
    by (simp add: example_def)
  have build: "build_index example (params_of ''s'') ?fc = Inr ?fc"
    by (simp add: build_index_def apply_filter_def params_of_def example_def
        example_geojsonvt_def feature_collection_def)
  have timing: "resource_timing example (params_of ''s'') = None"
    by (simp add: resource_timing_def params_of_def)
  note th = loadData_then_validation [OF fresh(1), where ext = example and ext' = example
      and params = "params_of ''s''"]
  from th [of JNull, THEN conjunct1]
  have a: "promises (loadData_then example 0 (params_of ''s'') JNull ?s) 0 =
      Some (Rejected (Error ''No data was returned''))"
    by simp
  from th [of JUndefined, THEN conjunct1]
  have b: "promises (loadData_then example 0 (params_of ''s'') JUndefined ?s) 0 =
      Some (Rejected (Error ''No data was returned''))"
    by simp
  from th [of "JNum 5", THEN conjunct2, THEN conjunct1] fresh(2) src
  have c: "promises (loadData_then example 0 (params_of ''s'') (JNum 5) ?s) 0 =
      Some (Rejected (Error (''Input data given to '' @ [CHR 0x27] @ ''s'' @ [CHR 0x27] @
                             '' is not a valid GeoJSON object.''))) \<and>
      geoJSONIndex (loadData_then example 0 (params_of ''s'') (JNum 5) ?s) = None"
    by simp
  from th [of ?fc, THEN conjunct2, THEN conjunct2] obj rew build timing
  have d: "promises (loadData_then example 0 (params_of ''s'') ?fc ?s) 0 =
      Some (Resolved (Loaded None)) \<and>
      geoJSONIndex (loadData_then example 0 (params_of ''s'') ?fc ?s) = Some ?fc"
    by simp
  from fresh(1) a b c d show ?thesis
    by simp
qed

text \<open>
  Against claim C5 as stated: the shape of the value is not checked.  A lone feature is a
  truthy object that is not a feature collection; the load is not rejected, it resolves, and
  the index is the one built from the feature.
\<close>

theorem shape_is_not_checked:
  "truthy city \<and> typeof_object city \<and> \<not> is_feature_collection city \<and>
   promises (loadData_then example 0 (params_of ''s'') city new_source) 0 \<noteq>
     Some (Rejected (invalid_input (params_of ''s''))) \<and>
   promises (loadData_then example 0 (params_of ''s'') city new_source) 0 =
     Some (Resolved (Loaded None)) \<and>
   geoJSONIndex (loadData_then example 0 (params_of ''s'') city new_source) =
     Some (feature_collection [city])"
proof -
  have shape: "truthy city" "typeof_object city" "\<not> is_feature_collection city"
      "member city ''type'' = JStr ''Feature''"
    by (simp_all add: city_def point_feature_def is_feature_collection_def)
  have build: "build_index example (params_of ''s'') city = Inr (feature_collection [city])"
    using shape(4)
    by (simp add: build_index_def apply_filter_def params_of_def example_def
        example_geojsonvt_def)
  have timing: "resource_timing example (params_of ''s'') = None"
    by (simp add: resource_timing_def params_of_def)
  have rew: "rewind example city = Inr city"
    by (simp add: example_def)
  from shape(1,2) build timing rew
  have "loadData_then example 0 (params_of ''s'') city new_source =
      resolve 0 (Loaded None)
        (new_source\<lparr>pendingPromise := None, pendingRequest := None,
                     geoJSONIndex := Some (feature_collection [city]), loaded := []\<rparr>)"
    by (simp add: loadData_then_def)
  with shape show ?thesis
    by (simp add: resolve_def promises_settle new_source_def)
qed

subsection \<open>The filter\<close>

text \<open>
  Claim C6, as the code has it.  A configured filter is compiled against the specification
  boolean, data-driven, not overridable, not transitioning.  When compilation fails, the
  try block fails, and an open load is rejected, with the one message that joins the
  errors, each rendered as key, colon, message, with a comma and a space between them; the
  index is left alone.  When it succeeds, the index builder of the configured kind is
  handed exactly the features on which the compiled filter is truthy at zoom 0, in their
  original order.
\<close>

theorem filter_step:
  assumes "filter_param params = Some f"
  shows "filter_spec =
       \<lparr>spec_type = ''boolean'', property_type = ''data-driven'', overridable = False,
        transition = False\<rparr> \<and>
     (\<forall>errs. createExpression ext f (Some filter_spec) = Inl errs \<longrightarrow>
        build_index ext params d =
          Inl (Error (join '', '' (map (\<lambda>err. key err @ '': '' @ message err) errs))) \<and>
        (\<forall>d0. promises s i = None \<and> truthy d0 \<and> typeof_object d0 \<and> rewind ext d0 = Inr d \<longrightarrow>
           promises (loadData_then ext i params d0 s) i =
             Some (Rejected
               (Error (join '', '' (map (\<lambda>err. key err @ '': '' @ message err) errs)))) \<and>
           geoJSONIndex (loadData_then ext i params d0 s) = geoJSONIndex s)) \<and>
     (\<forall>ev fs. createExpression ext f (Some filter_spec) = Inr ev \<and>
          member d ''features'' = JArr fs \<longrightarrow>
        build_index ext params d =
          (if cluster params
           then supercluster ext (getSuperclusterOptions ext params)
                  (JArr (filter (\<lambda>feature.
                                   truthy (ev \<lparr>accumulated = JUndefined, zoom = 0\<rparr> feature)) fs))
           else geojsonvt ext
                  (feature_collection
                     (filter (\<lambda>feature.
                                truthy (ev \<lparr>accumulated = JUndefined, zoom = 0\<rparr> feature)) fs))
                  (geojsonVtOptions params)))"
proof (intro conjI allI impI)
  show "filter_spec =
       \<lparr>spec_type = ''boolean'', property_type = ''data-driven'', overridable = False,
        transition = False\<rparr>"
    by (simp add: filter_spec_def)
next
  fix errs
  assume "createExpression ext f (Some filter_spec) = Inl errs"
  with assms show "build_index ext params d =
      Inl (Error (join '', '' (map (\<lambda>err. key err @ '': '' @ message err) errs)))"
    by (simp add: build_index_def apply_filter_def compile_error_message_def)
next
  fix errs d0
  assume c: "createExpression ext f (Some filter_spec) = Inl errs"
    and h: "promises s i = None \<and> truthy d0 \<and> typeof_object d0 \<and> rewind ext d0 = Inr d"
  from assms c have b: "build_index ext params d =
      Inl (Error (join '', '' (map (\<lambda>err. key err @ '': '' @ message err) errs)))"
    by (simp add: build_index_def apply_filter_def compile_error_message_def)
  from h b show "promises (loadData_then ext i params d0 s) i =
      Some (Rejected (Error (join '', '' (map (\<lambda>err. key err @ '': '' @ message err) errs))))"
    by (simp add: loadData_then_def reject_def promises_settle)
  from h b show "geoJSONIndex (loadData_then ext i params d0 s) = geoJSONIndex s"
    by (simp add: loadData_then_def reject_def)
next
  fix ev fs
  assume "createExpression ext f (Some filter_spec) = Inr ev \<and> member d ''features'' = JArr fs"
  with assms show "build_index ext params d =
          (if cluster params
           then supercluster ext (getSuperclusterOptions ext params)
                  (JArr (filter (\<lambda>feature.
                                   truthy (ev \<lparr>accumulated = JUndefined, zoom = 0\<rparr> feature)) fs))
           else geojsonvt ext
                  (feature_collection
                     (filter (\<lambda>feature.
                                truthy (ev \<lparr>accumulated = JUndefined, zoom = 0\<rparr> feature)) fs))
                  (geojsonVtOptions params))"
    by (simp add: build_index_def apply_filter_def feature_collection_def)
qed

theorem filter_step_witness:
  "build_index example ((params_of ''s'')\<lparr>filter_param := Some kind_is_city\<rparr>)
     (feature_collection [town, city, town]) = Inr (feature_collection [city]) \<and>
   build_index example ((params_of ''s'')\<lparr>filter_param := Some malformed\<rparr>)
     (feature_collection [town, city, town]) =
     Inl (Error ''[1]: Unknown expression nope., [2]: Unknown expression nah.'') \<and>
   promises (loadData_then example 0 ((params_of ''s'')\<lparr>filter_param := Some malformed\<rparr>)
     (feature_collection [town, city, town]) new_source) 0 =
     Some (Rejected (Error ''[1]: Unknown expression nope., [2]: Unknown expression nah.''))"
proof -
  let ?s = "new_source :: jsval worker_source"
  let ?fc = "feature_collection [town, city, town]"
  let ?good = "(params_of ''s'')\<lparr>filter_param := Some kind_is_city\<rparr>"
  let ?bad = "(params_of ''s'')\<lparr>filter_param := Some malformed\<rparr>"
  let ?ev = "\<lambda>(g :: globals) f. JBool (member (member f ''properties'') ''kind'' = JStr ''city'')"
  have compiled: "createExpression example kind_is_city (Some filter_spec) = Inr ?ev"
    by (simp add: example_def example_compile_def)
  have failed: "createExpression example malformed (Some filter_spec) =
      Inl [\<lparr>key = ''[1]'', message = ''Unknown expression nope.''\<rparr>,
           \<lparr>key = ''[2]'', message = ''Unknown expression nah.''\<rparr>]"
    by (simp add: example_def example_compile_def malformed_def kind_is_city_def get_count_def
        sum_count_def)
  have features: "member ?fc ''features'' = JArr [town, city, town]"
    by (simp add: feature_collection_def)
  have kept: "filter (\<lambda>feature. truthy (?ev \<lparr>accumulated = JUndefined, zoom = 0\<rparr> feature))
      [town, city, town] = [city]"
    by (simp add: city_def town_def point_feature_def)
  have vt: "geojsonvt example (feature_collection [city]) None = Inr (feature_collection [city])"
    by (simp add: example_def example_geojsonvt_def feature_collection_def)
  have fresh: "promises ?s 0 = None"
    by (simp add: new_source_def)
  have obj: "truthy ?fc" "typeof_object ?fc" "rewind example ?fc = Inr ?fc"
    by (simp_all add: feature_collection_def example_def)
  have fp: "filter_param ?good = Some kind_is_city" "filter_param ?bad = Some malformed"
    by simp_all
  from filter_step [OF fp(1), where ext = example and d = ?fc, THEN conjunct2, THEN conjunct2,
      rule_format, of ?ev "[town, city, town]"] compiled features kept vt
  have a: "build_index example ?good ?fc = Inr (feature_collection [city])"
    by (simp add: params_of_def)
  from filter_step [OF fp(2), where ext = example and d = ?fc and s = ?s and i = 0,
      THEN conjunct2, THEN conjunct1, rule_format, OF failed]
  have b: "build_index example ?bad ?fc =
      Inl (Error ''[1]: Unknown expression nope., [2]: Unknown expression nah.'') \<and>
      (\<forall>d0. promises ?s 0 = None \<and> truthy d0 \<and> typeof_object d0 \<and> rewind example d0 = Inr ?fc \<longrightarrow>
         promises (loadData_then example 0 ?bad d0 ?s) 0 =
           Some (Rejected (Error ''[1]: Unknown expression nope., [2]: Unknown expression nah.'')) \<and>
         geoJSONIndex (loadData_then example 0 ?bad d0 ?s) = geoJSONIndex ?s)"
    by simp
  from b fresh obj
  have c: "promises (loadData_then example 0 ?bad ?fc ?s) 0 =
      Some (Rejected (Error ''[1]: Unknown expression nope., [2]: Unknown expression nah.''))"
    by blast
  from a b c show ?thesis
    by simp
qed

text \<open>
  Against claim C6 as stated: the filter is not compiled as a non-data-driven property.  The
  property type handed to the compiler is \<^verbatim>\<open>data-driven\<close>, as a compiler that reports
  what it was given shows.
\<close>

theorem filter_is_compiled_data_driven:
  "property_type filter_spec = ''data-driven'' \<and>
   build_index (example\<lparr>createExpression := echo_compile\<rparr>)
     ((params_of ''s'')\<lparr>filter_param := Some kind_is_city\<rparr>) (feature_collection [city]) =
     Inl (Error ''property-type: data-driven'')"
  by (simp add: filter_spec_def build_index_def apply_filter_def echo_compile_def
      compile_error_message_def)

subsection \<open>Superseding the pending load\<close>

text \<open>
  What each piece of the coordinator leaves alone, and the stability of a settled promise
  under every event.
\<close>

lemma promises_abort_pending [simp]: "promises (abort_pending s) = promises s"
  by (simp add: abort_pending_def split: option.splits)

lemma pending_abort_pending [simp]:
  "pendingPromise (abort_pending s) = pendingPromise s"
  "pendingRequest (abort_pending s) = pendingRequest s"
  "next_call (abort_pending s) = next_call s"
  "inflight (abort_pending s) = inflight s"
  "geoJSONIndex (abort_pending s) = geoJSONIndex s"
  by (simp_all add: abort_pending_def split: option.splits)

lemma abandon_pending_fields [simp]:
  "pendingPromise (abandon_pending s) = pendingPromise s"
  "pendingRequest (abandon_pending s) = pendingRequest s"
  "next_call (abandon_pending s) = next_call s"
  "inflight (abandon_pending s) = inflight s"
  "aborted (abandon_pending s) = aborted s"
  "geoJSONIndex (abandon_pending s) = geoJSONIndex s"
  by (simp_all add: abandon_pending_def resolve_def split: option.splits)

lemma loadGeoJSON_promises [simp]:
  "promises (snd (loadGeoJSON ext params s)) = promises s"
  "aborted (snd (loadGeoJSON ext params s)) = aborted s"
  "pendingPromise (snd (loadGeoJSON ext params s)) = pendingPromise s"
  "pendingRequest (snd (loadGeoJSON ext params s)) = pendingRequest s"
  "geoJSONIndex (snd (loadGeoJSON ext params s)) = geoJSONIndex s"
  "next_call (snd (loadGeoJSON ext params s)) = next_call s"
  "inflight (snd (loadGeoJSON ext params s)) = inflight s"
  by (simp_all add: loadGeoJSON_def Let_def split: option.splits sum.splits)

lemma start_load_promises [simp]:
  "promises (start_load ext params s) = promises s"
  "aborted (start_load ext params s) = aborted s"
  "geoJSONIndex (start_load ext params s) = geoJSONIndex s"
  by (simp_all add: start_load_def Let_def case_prod_beta)

lemma start_load_pending [simp]:
  "pendingPromise (start_load ext params s) = Some (next_call s)"
  "pendingRequest (start_load ext params s) = Some (next_call s)"
  "next_call (start_load ext params s) = Suc (next_call s)"
  by (simp_all add: start_load_def Let_def case_prod_beta)

lemma loadGeoJSON_resume_promises [simp]:
  "promises (snd (loadGeoJSON_resume params r s)) = promises s"
  by (simp add: loadGeoJSON_resume_def split: sum.splits)

lemma settled_settle: "promises s i = Some v \<Longrightarrow> promises (settle j w s) i = Some v"
  by (auto simp: promises_settle)

lemma settled_loadData_then:
  "promises s i = Some v \<Longrightarrow> promises (loadData_then ext j params d s) i = Some v"
  by (simp add: loadData_then_def reject_def resolve_def settled_settle Let_def
      split: sum.splits)

lemma settled_step: "promises s i = Some v \<Longrightarrow> promises (step ext e s) i = Some v"
proof (cases e)
  case (CallLoadData params)
  assume "promises s i = Some v"
  then show ?thesis
    by (simp add: CallLoadData loadData_def abandon_pending_def resolve_def settled_settle
        split: option.splits)
next
  case CallRemoveSource
  assume "promises s i = Some v"
  then show ?thesis
    by (simp add: CallRemoveSource removeSource_def abandon_pending_def resolve_def
        settled_settle split: option.splits)
next
  case (TransportSettles j r)
  assume "promises s i = Some v"
  then show ?thesis
    by (simp add: TransportSettles transport_settles_def case_prod_beta Let_def
        split: option.splits phase.splits)
next
  case (Reaction j)
  assume "promises s i = Some v"
  then show ?thesis
    by (simp add: Reaction reaction_def loadData_catch_def reject_def settled_settle
        settled_loadData_then Let_def split: option.splits phase.splits sum.splits)
qed

lemma settled_run: "promises s i = Some v \<Longrightarrow> promises (run ext evs s) i = Some v"
  by (induction evs arbitrary: s) (simp_all add: settled_step)


text \<open>
  The load that the handle stands for.  Let \<^verbatim>\<open>_pendingPromise\<close> stand for the promise of
  load \<open>i\<close>.  A call of \<^verbatim>\<open>loadData\<close> first aborts the pending abort controller and
  resolves promise \<open>i\<close> with \<^verbatim>\<open>{abandoned: true}\<close>, and only then, on the state so
  reached, in which nothing new is registered yet, starts the new load;
  \<^verbatim>\<open>removeSource\<close> resolves the promise in the same way.  After either call promise
  \<open>i\<close> is settled.  If it was open before the call, it is settled with the abandonment,
  and whatever happens later it stays so.  This says nothing of a load in flight for which
  the handle no longer stands.
\<close>

theorem pending_load_is_abandoned:
  assumes "pendingPromise s = Some i"
  shows "loadData ext params s = start_load ext params (abandon_pending (abort_pending s)) \<and>
     promises (abandon_pending (abort_pending s)) i \<noteq> None \<and>
     (\<forall>k. pendingRequest s = Some k \<longrightarrow> k \<in> aborted (abandon_pending (abort_pending s))) \<and>
     pendingPromise (abandon_pending (abort_pending s)) = Some i \<and>
     next_call (abandon_pending (abort_pending s)) = next_call s \<and>
     inflight (abandon_pending (abort_pending s)) = inflight s \<and>
     promises (loadData ext params s) i \<noteq> None \<and>
     (\<forall>k. pendingRequest s = Some k \<longrightarrow> k \<in> aborted (loadData ext params s)) \<and>
     promises (removeSource s) i \<noteq> None \<and>
     (promises s i = None \<longrightarrow>
        promises (abandon_pending (abort_pending s)) i = Some (Resolved Abandoned) \<and>
        (\<forall>evs. promises (run ext evs (loadData ext params s)) i = Some (Resolved Abandoned)) \<and>
        (\<forall>evs. promises (run ext evs (removeSource s)) i = Some (Resolved Abandoned)))"
proof -
  let ?s1 = "abandon_pending (abort_pending s)"
  have settled: "promises ?s1 i \<noteq> None"
    using assms by (simp add: abandon_pending_def resolve_def promises_settle)
  have removed: "promises (removeSource s) i \<noteq> None"
    using assms by (simp add: removeSource_def abandon_pending_def resolve_def promises_settle)
  have token: "\<forall>k. pendingRequest s = Some k \<longrightarrow> k \<in> aborted ?s1"
    by (simp add: abort_pending_def)
  have abandoned: "promises ?s1 i = Some (Resolved Abandoned)"
      "promises (removeSource s) i = Some (Resolved Abandoned)" if "promises s i = None"
    using assms that
    by (simp_all add: removeSource_def abandon_pending_def resolve_def promises_settle)
  have later: "promises (run ext evs (loadData ext params s)) i = Some (Resolved Abandoned)"
      "promises (run ext evs (removeSource s)) i = Some (Resolved Abandoned)"
    if "promises s i = None" for evs
    using abandoned [OF that] by (simp_all add: settled_run loadData_def)
  from settled removed token abandoned later assms show ?thesis
    by (simp add: loadData_def)
qed


theorem pending_load_is_abandoned_witness:
  "pendingPromise (loadData example ((params_of ''a'')\<lparr>request := Some example_request\<rparr>)
     new_source) = Some 0 \<and>
   promises (loadData example ((params_of ''a'')\<lparr>request := Some example_request\<rparr>)
     new_source) 0 = None \<and>
   promises (loadData example ((params_of ''b'')\<lparr>data := Some (JStr town_text)\<rparr>)
     (loadData example ((params_of ''a'')\<lparr>request := Some example_request\<rparr>) new_source)) 0 =
     Some (Resolved Abandoned) \<and>
   0 \<in> aborted (loadData example ((params_of ''b'')\<lparr>data := Some (JStr town_text)\<rparr>)
     (loadData example ((params_of ''a'')\<lparr>request := Some example_request\<rparr>) new_source)) \<and>
   promises (run example [TransportSettles 0 (Inr (feature_collection [city])), Reaction 0]
     (loadData example ((params_of ''b'')\<lparr>data := Some (JStr town_text)\<rparr>)
       (loadData example ((params_of ''a'')\<lparr>request := Some example_request\<rparr>) new_source))) 0 =
     Some (Resolved Abandoned) \<and>
   promises (run example [TransportSettles 0 (Inl (Error ''Failed to fetch'')), Reaction 0]
     (removeSource
       (loadData example ((params_of ''a'')\<lparr>request := Some example_request\<rparr>) new_source))) 0 =
     Some (Resolved Abandoned)"
proof -
  let ?a = "(params_of ''a'')\<lparr>request := Some example_request\<rparr>"
  let ?b = "(params_of ''b'')\<lparr>data := Some (JStr town_text)\<rparr>"
  let ?s0 = "loadData example ?a (new_source :: jsval worker_source)"
  have fresh: "abandon_pending (abort_pending (new_source :: jsval worker_source)) = new_source"
    by (simp add: abandon_pending_def abort_pending_def new_source_def)
  have pending: "pendingPromise ?s0 = Some 0" "pendingRequest ?s0 = Some 0"
    by (simp_all add: loadData_def fresh) (simp_all add: new_source_def)
  have "open": "promises ?s0 0 = None"
    by (simp add: loadData_def fresh) (simp add: new_source_def)
  note th = pending_load_is_abandoned [OF pending(1), where ext = example and params = ?b]
  note token = th [THEN conjunct2, THEN conjunct2, THEN conjunct2, THEN conjunct2,
      THEN conjunct2, THEN conjunct2, THEN conjunct2, THEN conjunct1, rule_format,
      OF pending(2)]
  note after = th [THEN conjunct2, THEN conjunct2, THEN conjunct2, THEN conjunct2,
      THEN conjunct2, THEN conjunct2, THEN conjunct2, THEN conjunct2, THEN conjunct2,
      THEN mp, OF "open"]
  from after [THEN conjunct2, THEN conjunct1, THEN spec, of "[]"]
  have a: "promises (loadData example ?b ?s0) 0 = Some (Resolved Abandoned)"
    by simp
  note b = after [THEN conjunct2, THEN conjunct1, THEN spec,
      of "[TransportSettles 0 (Inr (feature_collection [city])), Reaction 0]"]
  note c = after [THEN conjunct2, THEN conjunct2, THEN spec,
      of "[TransportSettles 0 (Inl (Error ''Failed to fetch'')), Reaction 0]"]
  from pending(1) "open" a token b c show ?thesis
    by (intro conjI)
qed

subsection \<open>Races between loads\<close>

text \<open>The definitions that running the event loop on concrete events unfolds.\<close>

lemmas coordinator_defs =
  loadData_def start_load_def loadGeoJSON_def loadGeoJSON_resume_def string_data_def
  abandon_pending_def abort_pending_def removeSource_def resolve_def reject_def settle_def
  transport_settles_def reaction_def loadData_then_def loadData_catch_def build_index_def
  apply_filter_def resource_timing_def updateable_store_def invalid_input_def
  cannot_update_def source_text_def new_source_def params_of_def

lemmas example_defs =
  example_def example_parse_def example_geojsonvt_def example_request_def
  feature_collection_def city_text_def town_text_def anonymous_text_def

text \<open>
  Claim C1.  A load in flight is not always the load the handle stands for.  Loads a, on
  literal data, and b, on a request, start in the same turn; a's reaction runs after b has
  registered itself and clears the handle, while b waits for the transport with its promise
  open.  Neither a further \<^verbatim>\<open>loadData\<close> call nor \<^verbatim>\<open>removeSource\<close> then resolves
  b's promise or aborts b's controller, and when b's fetch fails, b's caller receives the
  error.
\<close>

theorem load_in_flight_is_not_abandoned:
  "pendingPromise (run example
     [CallLoadData ((params_of ''a'')\<lparr>data := Some (JStr city_text)\<rparr>),
      CallLoadData ((params_of ''b'')\<lparr>request := Some example_request\<rparr>),
      Reaction 0] new_source) = None \<and>
   map_option snd (inflight (run example
     [CallLoadData ((params_of ''a'')\<lparr>data := Some (JStr city_text)\<rparr>),
      CallLoadData ((params_of ''b'')\<lparr>request := Some example_request\<rparr>),
      Reaction 0] new_source) 1) = Some Fetching \<and>
   promises (run example
     [CallLoadData ((params_of ''a'')\<lparr>data := Some (JStr city_text)\<rparr>),
      CallLoadData ((params_of ''b'')\<lparr>request := Some example_request\<rparr>),
      Reaction 0] new_source) 1 = None \<and>
   promises (run example
     [CallLoadData ((params_of ''a'')\<lparr>data := Some (JStr city_text)\<rparr>),
      CallLoadData ((params_of ''b'')\<lparr>request := Some example_request\<rparr>),
      Reaction 0,
      CallLoadData ((params_of ''c'')\<lparr>data := Some (JStr town_text)\<rparr>)] new_source) 1 = None \<and>
   1 \<notin> aborted (run example
     [CallLoadData ((params_of ''a'')\<lparr>data := Some (JStr city_text)\<rparr>),
      CallLoadData ((params_of ''b'')\<lparr>request := Some example_request\<rparr>),
      Reaction 0,
      CallLoadData ((params_of ''c'')\<lparr>data := Some (JStr town_text)\<rparr>)] new_source) \<and>
   promises (run example
     [CallLoadData ((params_of ''a'')\<lparr>data := Some (JStr city_text)\<rparr>),
      CallLoadData ((params_of ''b'')\<lparr>request := Some example_request\<rparr>),
      Reaction 0,
      CallRemoveSource] new_source) 1 = None \<and>
   promises (run example
     [CallLoadData ((params_of ''a'')\<lparr>data := Some (JStr city_text)\<rparr>),
      CallLoadData ((params_of ''b'')\<lparr>request := Some example_request\<rparr>),
      Reaction 0,
      CallLoadData ((params_of ''c'')\<lparr>data := Some (JStr town_text)\<rparr>),
      TransportSettles 1 (Inl (Error ''Failed to fetch'')),
      Reaction 1] new_source) 1 = Some (Rejected (Error ''Failed to fetch'')) \<and>
   promises (run example
     [CallLoadData ((params_of ''a'')\<lparr>data := Some (JStr city_text)\<rparr>),
      CallLoadData ((params_of ''b'')\<lparr>request := Some example_request\<rparr>),
      Reaction 0,
      CallRemoveSource,
      TransportSettles 1 (Inl (Error ''Failed to fetch'')),
      Reaction 1] new_source) 1 = Some (Rejected (Error ''Failed to fetch''))"
  by (simp add: coordinator_defs example_defs)

text \<open>
  Claim C3.  The pending-load fields are cleared by the \<^verbatim>\<open>then\<close> reaction only.  A load
  whose \<^verbatim>\<open>loadGeoJSON\<close> promise rejects, here on literal data that does not parse and
  on a failed fetch, is settled by the \<^verbatim>\<open>catch\<close> reaction, which clears nothing: after
  the rejection \<^verbatim>\<open>_pendingPromise\<close> and \<^verbatim>\<open>_pendingRequest\<close> still stand for the
  finished load, and the next \<^verbatim>\<open>loadData\<close> call aborts its controller.  A load that
  succeeds leaves them cleared.
\<close>

theorem rejected_load_stays_pending:
  "promises (run example
     [CallLoadData ((params_of ''s'')\<lparr>data := Some (JStr ''{'')\<rparr>), Reaction 0] new_source) 0 =
     Some (Rejected (Error (''Input data given to '' @ [CHR 0x27] @ ''s'' @ [CHR 0x27] @
                            '' is not a valid GeoJSON object.''))) \<and>
   pendingPromise (run example
     [CallLoadData ((params_of ''s'')\<lparr>data := Some (JStr ''{'')\<rparr>), Reaction 0] new_source) =
     Some 0 \<and>
   pendingRequest (run example
     [CallLoadData ((params_of ''s'')\<lparr>data := Some (JStr ''{'')\<rparr>), Reaction 0] new_source) =
     Some 0 \<and>
   0 \<in> aborted (run example
     [CallLoadData ((params_of ''s'')\<lparr>data := Some (JStr ''{'')\<rparr>), Reaction 0,
      CallLoadData ((params_of ''s'')\<lparr>data := Some (JStr town_text)\<rparr>)] new_source) \<and>
   pendingPromise (run example
     [CallLoadData ((params_of ''s'')\<lparr>request := Some example_request\<rparr>),
      TransportSettles 0 (Inl (Error ''Failed to fetch'')), Reaction 0] new_source) = Some 0 \<and>
   pendingPromise (run example
     [CallLoadData ((params_of ''s'')\<lparr>data := Some (JStr town_text)\<rparr>), Reaction 0]
     new_source) = None"
  by (simp add: coordinator_defs example_defs)


text \<open>
  Claim C2.  Three loads start in the order a, b, c: a on literal data and b on a request
  in the same turn, so that a's reaction runs after b has registered itself and clears b's
  pending-load fields; c therefore neither aborts nor abandons b.  Load c completes and its
  index is live; then b's fetch, never aborted, delivers, and b's reaction replaces the
  index of the last load to start with its own, and resolves b's promise with a result.
\<close>

theorem earlier_load_overwrites_later_index:
  "geoJSONIndex (run example
     [CallLoadData ((params_of ''a'')\<lparr>data := Some (JStr city_text)\<rparr>),
      CallLoadData ((params_of ''b'')\<lparr>request := Some example_request\<rparr>),
      Reaction 0,
      CallLoadData ((params_of ''c'')\<lparr>data := Some (JStr town_text)\<rparr>),
      Reaction 2] new_source) = Some (feature_collection [town]) \<and>
   promises (run example
     [CallLoadData ((params_of ''a'')\<lparr>data := Some (JStr city_text)\<rparr>),
      CallLoadData ((params_of ''b'')\<lparr>request := Some example_request\<rparr>),
      Reaction 0,
      CallLoadData ((params_of ''c'')\<lparr>data := Some (JStr town_text)\<rparr>),
      Reaction 2] new_source) 2 = Some (Resolved (Loaded None)) \<and>
   geoJSONIndex (run example
     [CallLoadData ((params_of ''a'')\<lparr>data := Some (JStr city_text)\<rparr>),
      CallLoadData ((params_of ''b'')\<lparr>request := Some example_request\<rparr>),
      Reaction 0,
      CallLoadData ((params_of ''c'')\<lparr>data := Some (JStr town_text)\<rparr>),
      Reaction 2,
      TransportSettles 1 (Inr (feature_collection [city, town])),
      Reaction 1] new_source) = Some (feature_collection [city, town]) \<and>
   promises (run example
     [CallLoadData ((params_of ''a'')\<lparr>data := Some (JStr city_text)\<rparr>),
      CallLoadData ((params_of ''b'')\<lparr>request := Some example_request\<rparr>),
      Reaction 0,
      CallLoadData ((params_of ''c'')\<lparr>data := Some (JStr town_text)\<rparr>),
      Reaction 2,
      TransportSettles 1 (Inr (feature_collection [city, town])),
      Reaction 1] new_source) 1 = Some (Resolved (Loaded None)) \<and>
   1 \<notin> aborted (run example
     [CallLoadData ((params_of ''a'')\<lparr>data := Some (JStr city_text)\<rparr>),
      CallLoadData ((params_of ''b'')\<lparr>request := Some example_request\<rparr>),
      Reaction 0,
      CallLoadData ((params_of ''c'')\<lparr>data := Some (JStr town_text)\<rparr>),
      Reaction 2,
      TransportSettles 1 (Inr (feature_collection [city, town])),
      Reaction 1] new_source) \<and>
   pendingPromise (run example
     [CallLoadData ((params_of ''a'')\<lparr>data := Some (JStr city_text)\<rparr>),
      CallLoadData ((params_of ''b'')\<lparr>request := Some example_request\<rparr>),
      Reaction 0] new_source) = None"
  by (simp add: coordinator_defs example_defs)

subsection \<open>Cluster properties\<close>

text \<open>
  The two loops, in closed form: the \<^verbatim>\<open>map\<close> loop appends one property per name, the
  \<^verbatim>\<open>reduce\<close> loop is a left fold over the entries.
\<close>

lemma set_prop_append: "k \<notin> fst ` set kvs \<Longrightarrow> set_prop kvs k v = kvs @ [(k, v)]"
  by (induction kvs k v rule: set_prop.induct) auto

lemma map_loop_append:
  "distinct ks \<Longrightarrow> set ks \<inter> fst ` set properties = {} \<Longrightarrow>
   \<forall>k \<in> set ks. evaluate_entry tbl k env = Inr (g k) \<Longrightarrow>
   map_loop tbl ks env properties = Inr (properties @ map (\<lambda>k. (k, g k)) ks)"
proof (induction ks arbitrary: properties)
  case Nil
  then show ?case by simp
next
  case (Cons k ks)
  from Cons.prems have fresh: "k \<notin> fst ` set properties"
    by auto
  from Cons.prems have "set ks \<inter> fst ` set (properties @ [(k, g k)]) = {}"
    by auto
  with Cons.prems Cons.IH [of "properties @ [(k, g k)]"]
  have "map_loop tbl ks env (properties @ [(k, g k)]) =
      Inr ((properties @ [(k, g k)]) @ map (\<lambda>k. (k, g k)) ks)"
    by simp
  with Cons.prems fresh show ?case
    by (simp add: set_prop_append)
qed

lemma map_of_table:
  "distinct (map fst cp) \<Longrightarrow> (k, operator, mapExpression) \<in> set cp \<Longrightarrow>
   map_of (map (\<lambda>(k, operator, mapExpression). (k, h k operator mapExpression)) cp) k =
     Some (h k operator mapExpression)"
  by (induction cp) (auto simp: rev_image_eqI)

lemma globals_accumulated_update:
  "g\<lparr>accumulated := a\<rparr> = \<lparr>accumulated = a, zoom = zoom g\<rparr>"
  by (cases g) simp

lemma reduce_loop_foldl:
  "distinct (map fst xs) \<Longrightarrow>
   \<forall>(k, operator, mapExpression) \<in> set xs. map_of tbl k = Some (Inr (ev k operator)) \<Longrightarrow>
   reduce_loop tbl (map fst xs) env acc = (err, acc', env') \<Longrightarrow>
   err = None \<and>
   acc' = foldl (\<lambda>a (k, operator, mapExpression).
                  set_prop a k (ev k operator
                    \<lparr>accumulated = get_prop a k, zoom = zoom (env_globals env)\<rparr>
                    (JObj [(''properties'', env_feature_properties env)]))) acc xs \<and>
   zoom (env_globals env') = zoom (env_globals env) \<and>
   env_feature_properties env' = env_feature_properties env"
proof (induction xs arbitrary: env acc)
  case Nil
  then show ?case by simp
next
  case (Cons x xs)
  obtain k operator mapExpression where x: "x = (k, operator, mapExpression)"
    by (cases x)
  let ?env1 = "env\<lparr>env_globals := (env_globals env)\<lparr>accumulated := get_prop acc k\<rparr>\<rparr>"
  let ?v = "ev k operator \<lparr>accumulated = get_prop acc k, zoom = zoom (env_globals env)\<rparr>
      (JObj [(''properties'', env_feature_properties env)])"
  from Cons.prems(2) x have entry: "map_of tbl k = Some (Inr (ev k operator))"
    by simp
  then have val: "evaluate_entry tbl k ?env1 = Inr ?v"
    by (simp add: evaluate_entry_def feature_object_def globals_accumulated_update)
  with Cons.prems(3) x have rest: "reduce_loop tbl (map fst xs) ?env1 (set_prop acc k ?v) =
      (err, acc', env')"
    by (simp add: Let_def)
  from Cons.prems have "distinct (map fst xs)"
      "\<forall>(k, operator, mapExpression) \<in> set xs. map_of tbl k = Some (Inr (ev k operator))"
    by simp_all
  from Cons.IH [OF this rest] x show ?case
    by simp
qed


text \<open>
  Claim C8, as the code has it.  When a cluster-property specification and a clustering
  configuration are both present, \<^verbatim>\<open>getSuperclusterOptions\<close> returns the configuration
  with a \<^verbatim>\<open>map\<close> and a \<^verbatim>\<open>reduce\<close> callback installed.  The context they share starts
  at zoom 0 and both keep it there.  When the map expressions compile, \<^verbatim>\<open>map\<close> returns,
  for each name in key enumeration order, the value of that name's map expression at zoom 0
  on a feature whose properties are the point's.  When the reduce expressions compile,
  \<^verbatim>\<open>reduce\<close> walks the names in key enumeration order, and for each sets the accumulated
  slot to the accumulated property of that name, evaluates the reduce expression on a feature
  whose properties are the incoming ones, and overwrites the accumulated property with the
  result.  The reduce expression of a bare operator name is
  \<^verbatim>\<open>[operator, ['accumulated'], ['get', name]]\<close>; any other reduce term is used as it is.
\<close>

theorem cluster_callbacks:
  assumes cp: "clusterProperties params = Some cp"
    and opts: "superclusterOptions params = Some opts"
    and keys: "distinct (map fst cp)"
  shows "\<exists>m r.
     getSuperclusterOptions ext params =
       Some (opts\<lparr>map_callback := Some m, reduce_callback := Some r\<rparr>) \<and>
     zoom (env_globals initial_env) = 0 \<and>
     (\<forall>env pointProperties.
        zoom (env_globals env) = 0 \<and>
        (\<forall>(k, operator, mapExpression) \<in> set cp.
           \<exists>ev. createExpression ext mapExpression None = Inr ev) \<longrightarrow>
        m env pointProperties =
          (Inr (map (\<lambda>(k, operator, mapExpression).
                       (k, projr (createExpression ext mapExpression None)
                             \<lparr>accumulated = accumulated (env_globals env), zoom = 0\<rparr>
                             (JObj [(''properties'', pointProperties)]))) cp),
           env\<lparr>env_feature_properties := pointProperties\<rparr>)) \<and>
     (\<forall>env acc incoming err acc' env'.
        zoom (env_globals env) = 0 \<and>
        (\<forall>(k, operator, mapExpression) \<in> set cp.
           \<exists>ev. createExpression ext
                  (if typeof_string operator
                   then JArr [operator, JArr [JStr ''accumulated''], JArr [JStr ''get'', JStr k]]
                   else operator) None = Inr ev) \<and>
        r env acc incoming = (err, acc', env') \<longrightarrow>
        err = None \<and>
        acc' = foldl (\<lambda>a (k, operator, mapExpression).
                 set_prop a k
                   (projr (createExpression ext
                      (if typeof_string operator
                       then JArr [operator, JArr [JStr ''accumulated''], JArr [JStr ''get'', JStr k]]
                       else operator) None)
                     \<lparr>accumulated = get_prop a k, zoom = 0\<rparr>
                     (JObj [(''properties'', incoming)]))) acc cp \<and>
        zoom (env_globals env') = 0 \<and>
        env_feature_properties env' = incoming)"
proof -
  let ?m = "supercluster_map (mapExpressions ext cp) (map fst cp)"
  let ?r = "supercluster_reduce (reduceExpressions ext cp) (map fst cp)"
  have installed: "getSuperclusterOptions ext params =
      Some (opts\<lparr>map_callback := Some ?m, reduce_callback := Some ?r\<rparr>)"
    using cp opts by (simp add: getSuperclusterOptions_def)
  have zoom0: "zoom (env_globals initial_env) = 0"
    by (simp add: initial_env_def)
  have mapped: "\<forall>env pointProperties.
        zoom (env_globals env) = 0 \<and>
        (\<forall>(k, operator, mapExpression) \<in> set cp.
           \<exists>ev. createExpression ext mapExpression None = Inr ev) \<longrightarrow>
        ?m env pointProperties =
          (Inr (map (\<lambda>(k, operator, mapExpression).
                       (k, projr (createExpression ext mapExpression None)
                             \<lparr>accumulated = accumulated (env_globals env), zoom = 0\<rparr>
                             (JObj [(''properties'', pointProperties)]))) cp),
           env\<lparr>env_feature_properties := pointProperties\<rparr>)"
  proof (intro allI impI)
    fix env :: closure_env and pointProperties
    assume h: "zoom (env_globals env) = 0 \<and>
        (\<forall>(k, operator, mapExpression) \<in> set cp.
           \<exists>ev. createExpression ext mapExpression None = Inr ev)"
    let ?env1 = "env\<lparr>env_feature_properties := pointProperties\<rparr>"
    let ?g = "\<lambda>k. (case map_of (mapExpressions ext cp) k of
        Some c \<Rightarrow> projr c (env_globals ?env1) (feature_object ?env1))"
    have entry: "map_of (mapExpressions ext cp) k = Some (createExpression ext mapExpression None)"
      if "(k, operator, mapExpression) \<in> set cp" for k operator mapExpression
      using map_of_table [OF keys that, of "\<lambda>k operator mapExpression.
          createExpression ext mapExpression None"]
      by (simp add: mapExpressions_def)
    have "\<forall>k \<in> set (map fst cp). evaluate_entry (mapExpressions ext cp) k ?env1 = Inr (?g k)"
    proof
      fix k assume "k \<in> set (map fst cp)"
      then obtain operator mapExpression where mem: "(k, operator, mapExpression) \<in> set cp"
        by auto
      with h obtain ev where "createExpression ext mapExpression None = Inr ev"
        by auto
      with entry [OF mem]
      show "evaluate_entry (mapExpressions ext cp) k ?env1 = Inr (?g k)"
        by (simp add: evaluate_entry_def)
    qed
    with map_loop_append [of "map fst cp" "[]" "mapExpressions ext cp" ?env1 ?g] keys
    have loop: "map_loop (mapExpressions ext cp) (map fst cp) ?env1 [] =
        Inr (map (\<lambda>k. (k, ?g k)) (map fst cp))"
      by simp
    from h have geq: "\<lparr>accumulated = accumulated (env_globals env), zoom = 0\<rparr> = env_globals env"
      by (cases "env_globals env") simp
    have "map (\<lambda>k. (k, ?g k)) (map fst cp) =
        map (\<lambda>(k, operator, mapExpression).
               (k, projr (createExpression ext mapExpression None)
                     \<lparr>accumulated = accumulated (env_globals env), zoom = 0\<rparr>
                     (JObj [(''properties'', pointProperties)]))) cp"
      using entry geq by (auto simp: feature_object_def)
    with loop show "?m env pointProperties =
          (Inr (map (\<lambda>(k, operator, mapExpression).
                       (k, projr (createExpression ext mapExpression None)
                             \<lparr>accumulated = accumulated (env_globals env), zoom = 0\<rparr>
                             (JObj [(''properties'', pointProperties)]))) cp),
           env\<lparr>env_feature_properties := pointProperties\<rparr>)"
      by (simp add: supercluster_map_def Let_def)
  qed
  have reduced: "\<forall>env acc incoming err acc' env'.
        zoom (env_globals env) = 0 \<and>
        (\<forall>(k, operator, mapExpression) \<in> set cp.
           \<exists>ev. createExpression ext
                  (if typeof_string operator
                   then JArr [operator, JArr [JStr ''accumulated''], JArr [JStr ''get'', JStr k]]
                   else operator) None = Inr ev) \<and>
        ?r env acc incoming = (err, acc', env') \<longrightarrow>
        err = None \<and>
        acc' = foldl (\<lambda>a (k, operator, mapExpression).
                 set_prop a k
                   (projr (createExpression ext
                      (if typeof_string operator
                       then JArr [operator, JArr [JStr ''accumulated''], JArr [JStr ''get'', JStr k]]
                       else operator) None)
                     \<lparr>accumulated = get_prop a k, zoom = 0\<rparr>
                     (JObj [(''properties'', incoming)]))) acc cp \<and>
        zoom (env_globals env') = 0 \<and>
        env_feature_properties env' = incoming"
  proof (intro allI impI)
    fix env :: closure_env and acc incoming err acc' and env' :: closure_env
    assume h: "zoom (env_globals env) = 0 \<and>
        (\<forall>(k, operator, mapExpression) \<in> set cp.
           \<exists>ev. createExpression ext
                  (if typeof_string operator
                   then JArr [operator, JArr [JStr ''accumulated''], JArr [JStr ''get'', JStr k]]
                   else operator) None = Inr ev) \<and>
        ?r env acc incoming = (err, acc', env')"
    let ?ev = "\<lambda>k operator. projr (createExpression ext
        (if typeof_string operator
         then JArr [operator, JArr [JStr ''accumulated''], JArr [JStr ''get'', JStr k]]
         else operator) None)"
    let ?env1 = "env\<lparr>env_feature_properties := incoming\<rparr>"
    have "\<forall>(k, operator, mapExpression) \<in> set cp.
        map_of (reduceExpressions ext cp) k = Some (Inr (?ev k operator))"
    proof (intro ballI, clarify)
      fix k operator mapExpression
      assume mem: "(k, operator, mapExpression) \<in> set cp"
      with h obtain ev where "createExpression ext
                  (if typeof_string operator
                   then JArr [operator, JArr [JStr ''accumulated''], JArr [JStr ''get'', JStr k]]
                   else operator) None = Inr ev"
        by auto
      with map_of_table [OF keys mem, of "\<lambda>k operator mapExpression.
          createExpression ext (reduce_term k operator) None"]
      show "map_of (reduceExpressions ext cp) k = Some (Inr (?ev k operator))"
        by (simp add: reduceExpressions_def reduce_term_def)
    qed
    moreover from h have "reduce_loop (reduceExpressions ext cp) (map fst cp) ?env1 acc =
        (err, acc', env')"
      by (simp add: supercluster_reduce_def)
    ultimately have res: "err = None \<and>
        acc' = foldl (\<lambda>a (k, operator, mapExpression).
                  set_prop a k (?ev k operator
                    \<lparr>accumulated = get_prop a k, zoom = zoom (env_globals ?env1)\<rparr>
                    (JObj [(''properties'', env_feature_properties ?env1)]))) acc cp \<and>
        zoom (env_globals env') = zoom (env_globals ?env1) \<and>
        env_feature_properties env' = env_feature_properties ?env1"
      by (rule reduce_loop_foldl [OF keys])
    with h show "err = None \<and>
        acc' = foldl (\<lambda>a (k, operator, mapExpression).
                 set_prop a k
                   (projr (createExpression ext
                      (if typeof_string operator
                       then JArr [operator, JArr [JStr ''accumulated''], JArr [JStr ''get'', JStr k]]
                       else operator) None)
                     \<lparr>accumulated = get_prop a k, zoom = 0\<rparr>
                     (JObj [(''properties'', incoming)]))) acc cp \<and>
        zoom (env_globals env') = 0 \<and>
        env_feature_properties env' = incoming"
      by simp
  qed
  show ?thesis
    by (rule exI [of _ ?m], rule exI [of _ ?r]) (intro conjI installed zoom0 mapped reduced)
qed


theorem cluster_callbacks_witness:
  "\<exists>m r.
     getSuperclusterOptions example
       ((params_of ''s'')\<lparr>cluster := True,
          superclusterOptions :=
            Some \<lparr>settings = JObj [(''radius'', JNum 50)], map_callback = None,
                  reduce_callback = None\<rparr>,
          clusterProperties := Some [(''count'', JStr ''+'', get_count)]\<rparr>) =
       Some \<lparr>settings = JObj [(''radius'', JNum 50)], map_callback = Some m,
             reduce_callback = Some r\<rparr> \<and>
     m initial_env (JObj [(''count'', JNum 1)]) =
       (Inr [(''count'', JNum 1)],
        initial_env\<lparr>env_feature_properties := JObj [(''count'', JNum 1)]\<rparr>) \<and>
     fst (r initial_env [(''count'', JNum 1)] (JObj [(''count'', JNum 1)])) = None \<and>
     fst (snd (r initial_env [(''count'', JNum 1)] (JObj [(''count'', JNum 1)]))) =
       [(''count'', JNum 2)]"
proof -
  let ?opts = "\<lparr>settings = JObj [(''radius'', JNum 50)], map_callback = None,
      reduce_callback = None\<rparr>"
  let ?cp = "[(''count'', JStr ''+'', get_count)]"
  let ?p = "(params_of ''s'')\<lparr>cluster := True, superclusterOptions := Some ?opts,
      clusterProperties := Some ?cp\<rparr>"
  let ?one = "JObj [(''count'', JNum 1)]"
  have cp: "clusterProperties ?p = Some ?cp" and opts: "superclusterOptions ?p = Some ?opts"
    and keys: "distinct (map fst ?cp)"
    by simp_all
  have zoom0: "zoom (env_globals initial_env) = 0"
    by (simp add: initial_env_def)
  have acc0: "accumulated (env_globals initial_env) = JNull"
    by (simp add: initial_env_def)
  have get: "createExpression example get_count None =
      Inr (\<lambda>g f. member (member f ''properties'') ''count'')"
    by (simp add: example_def example_compile_def get_count_def kind_is_city_def)
  have sum: "createExpression example
      (JArr [JStr ''+'', JArr [JStr ''accumulated''], JArr [JStr ''get'', JStr ''count'']]) None =
      Inr (\<lambda>g f. js_plus (accumulated g) (member (member f ''properties'') ''count''))"
    by (simp add: example_def example_compile_def get_count_def kind_is_city_def sum_count_def)
  from cluster_callbacks [OF cp opts keys, of example]
  obtain m r where
    installed: "getSuperclusterOptions example ?p =
      Some (?opts\<lparr>map_callback := Some m, reduce_callback := Some r\<rparr>)"
    and mapped: "\<And>env pointProperties.
        zoom (env_globals env) = 0 \<and>
        (\<forall>(k, operator, mapExpression) \<in> set ?cp.
           \<exists>ev. createExpression example mapExpression None = Inr ev) \<Longrightarrow>
        m env pointProperties =
          (Inr (map (\<lambda>(k, operator, mapExpression).
                       (k, projr (createExpression example mapExpression None)
                             \<lparr>accumulated = accumulated (env_globals env), zoom = 0\<rparr>
                             (JObj [(''properties'', pointProperties)]))) ?cp),
           env\<lparr>env_feature_properties := pointProperties\<rparr>)"
    and reduced: "\<And>env acc incoming err acc' env'.
        zoom (env_globals env) = 0 \<and>
        (\<forall>(k, operator, mapExpression) \<in> set ?cp.
           \<exists>ev. createExpression example
                  (if typeof_string operator
                   then JArr [operator, JArr [JStr ''accumulated''], JArr [JStr ''get'', JStr k]]
                   else operator) None = Inr ev) \<and>
        r env acc incoming = (err, acc', env') \<Longrightarrow>
        err = None \<and>
        acc' = foldl (\<lambda>a (k, operator, mapExpression).
                 set_prop a k
                   (projr (createExpression example
                      (if typeof_string operator
                       then JArr [operator, JArr [JStr ''accumulated''], JArr [JStr ''get'', JStr k]]
                       else operator) None)
                     \<lparr>accumulated = get_prop a k, zoom = 0\<rparr>
                     (JObj [(''properties'', incoming)]))) acc ?cp \<and>
        zoom (env_globals env') = 0 \<and>
        env_feature_properties env' = incoming"
    by blast
  from installed have a: "getSuperclusterOptions example ?p =
      Some \<lparr>settings = JObj [(''radius'', JNum 50)], map_callback = Some m,
            reduce_callback = Some r\<rparr>"
    by simp
  from mapped [of initial_env ?one] zoom0 acc0 get
  have b: "m initial_env ?one =
      (Inr [(''count'', JNum 1)], initial_env\<lparr>env_feature_properties := ?one\<rparr>)"
    by simp
  obtain err acc' env' where res: "r initial_env [(''count'', JNum 1)] ?one = (err, acc', env')"
    by (cases "r initial_env [(''count'', JNum 1)] ?one")
  from reduced [of initial_env "[(''count'', JNum 1)]" ?one err acc' env'] zoom0 sum res
  have "err = None \<and> acc' = [(''count'', JNum 2)]"
    by simp
  with res have c: "fst (r initial_env [(''count'', JNum 1)] ?one) = None \<and>
      fst (snd (r initial_env [(''count'', JNum 1)] ?one)) = [(''count'', JNum 2)]"
    by simp
  from a b c show ?thesis
    by blast
qed

text \<open>
  Against claim C8 as stated: a cluster-property specification alone installs nothing.
  Without a clustering configuration \<^verbatim>\<open>getSuperclusterOptions\<close> returns none, and the
  cluster index is built from no configuration at all.
\<close>

theorem no_callbacks_without_options:
  "clusterProperties ((params_of ''s'')\<lparr>cluster := True,
      clusterProperties := Some [(''count'', JStr ''+'', get_count)]\<rparr>) =
     Some [(''count'', JStr ''+'', get_count)] \<and>
   getSuperclusterOptions example
     ((params_of ''s'')\<lparr>cluster := True,
        clusterProperties := Some [(''count'', JStr ''+'', get_count)]\<rparr>) = None \<and>
   build_index example
     ((params_of ''s'')\<lparr>cluster := True,
        clusterProperties := Some [(''count'', JStr ''+'', get_count)]\<rparr>)
     (feature_collection [city, town]) =
     supercluster example None (JArr [city, town])"
  by (simp add: getSuperclusterOptions_def build_index_def apply_filter_def params_of_def
      feature_collection_def)

end
